theory Spec2Isabelle
  imports Complex_Main "HOL-Library.Word"
begin

section \<open>The training script \<open>train.py\<close>: data model\<close>

text \<open>
  The script is one module: configuration globals, start-up code, three functions
  (\<open>get_batch\<close>, \<open>estimate_loss\<close>, \<open>get_lr\<close>) and the training loop. The model
  below follows it top to bottom. Python integers are \<open>int\<close>. Python floats are
  idealised as reals (rounding, also that of the float32 tensor of losses, is outside
  the model); a loss can also be NaN, which every comparison answers with False.
  Exceptions are values of \<open>error\<close>; \<open>ModelError\<close> stands for whatever the model
  collaborator raises. Wall-clock time (\<open>t0\<close>, \<open>dt\<close>) and device transfers are left
  out.
\<close>

datatype error =
    ZeroDivisionError
  | AssertionError
  | KeyError
  | NameError
  | RuntimeError
  | FileNotFoundError
  | ModelError

datatype pyfloat = Flt real | NaN

fun flt_less :: "pyfloat \<Rightarrow> pyfloat \<Rightarrow> bool" where
  "flt_less (Flt a) (Flt b) = (a < b)"
| "flt_less _ _ = False"

fun flt_val :: "pyfloat \<Rightarrow> real option" where
  "flt_val (Flt a) = Some a"
| "flt_val NaN = None"

text \<open>
  The configuration globals of lines 29--62, as they stand once the command line has
  been applied (the configurator of lines 67--94 is not modelled).
\<close>

record config =
  out_dir :: string
  eval_interval :: int
  log_interval :: int
  eval_iters :: int
  eval_only :: bool
  wandb_log :: bool
  wandb_entity :: string
  wandb_project :: string
  wandb_run_name :: string
  dataset :: string
  batch_size :: int
  block_size :: int
  device :: string
  init_from :: string
  dropout :: real
  n_layer :: int
  n_head :: int
  n_embd :: int
  learning_rate :: real
  max_iters :: int
  weight_decay :: real
  betas :: "real \<times> real"
  decay_lr :: bool
  warmup_iters :: int
  lr_decay_iters :: int
  min_lr :: real
  backend :: string
  compile_model :: bool

definition default_config :: config where
  "default_config =
     \<lparr> out_dir = ''out'', eval_interval = 500, log_interval = 1, eval_iters = 50,
       eval_only = False, wandb_log = False, wandb_entity = ''karpathy'',
       wandb_project = ''owt'', wandb_run_name = ''gpt2'', dataset = ''openwebtext'',
       batch_size = 8, block_size = 1024, device = ''cuda:0'', init_from = ''scratch'',
       dropout = 1 / 10, n_layer = 12, n_head = 12, n_embd = 768,
       learning_rate = 25 / 100000, max_iters = 500000, weight_decay = 1 / 100,
       betas = (9 / 10, 95 / 100), decay_lr = True, warmup_iters = 2000,
       lr_decay_iters = 320000, min_lr = 1 / 100000, backend = ''nccl'',
       compile_model = True \<rparr>"

section \<open>The learning-rate schedule (lines 186--197)\<close>

text \<open>
  \<open>get_lr\<close> divides twice; a zero divisor raises ZeroDivisionError in Python, and the
  assertion on \<open>decay_ratio\<close> raises AssertionError. Both are branches here.
\<close>

definition get_lr :: "config \<Rightarrow> int \<Rightarrow> error + real" where
  "get_lr cfg iter =
     (if iter < warmup_iters cfg then
        (if warmup_iters cfg = 0 then Inl ZeroDivisionError
         else Inr (learning_rate cfg * real_of_int iter / real_of_int (warmup_iters cfg)))
      else if iter > lr_decay_iters cfg then Inr (min_lr cfg)
      else if lr_decay_iters cfg - warmup_iters cfg = 0 then Inl ZeroDivisionError
      else
        (let decay_ratio = real_of_int (iter - warmup_iters cfg)
                             / real_of_int (lr_decay_iters cfg - warmup_iters cfg)
         in if \<not> (0 \<le> decay_ratio \<and> decay_ratio \<le> 1) then Inl AssertionError
            else
              (let coeff = (1 / 2) * (1 + cos (pi * decay_ratio))
               in Inr (min_lr cfg + coeff * (learning_rate cfg - min_lr cfg)))))"

section \<open>The corpus sampler (lines 112--120)\<close>

text \<open>
  The two splits are arrays of unsigned 16-bit tokens. A slice \<open>data[a:b]\<close> follows
  Python's rule: a negative bound counts from the end, and both bounds are clamped to
  the array. \<open>astype(np.int64)\<close> widens each token without changing its value.
\<close>

type_synonym token = "16 word"
type_synonym tensor_row = "64 word list"

definition py_slice :: "'a list \<Rightarrow> int \<Rightarrow> int \<Rightarrow> 'a list" where
  "py_slice xs start stop =
     (let n = int (length xs);
          s = (if start < 0 then max 0 (start + n) else min start n);
          e = (if stop < 0 then max 0 (stop + n) else min stop n)
      in take (nat (e - s)) (drop (nat s) xs))"

definition astype_int64 :: "token list \<Rightarrow> tensor_row" where
  "astype_int64 ts = map ucast ts"

text \<open>
  \<open>torch.randint(high, (n,))\<close> draws \<open>n\<close> integers from \<open>0 \<le> i < high\<close> and raises
  when that range is empty or \<open>n\<close> is negative. The generator is a sequence of raw
  draws \<open>raw\<close> read from position \<open>pos\<close>; each draw is reduced into the range.
\<close>

definition randint :: "(nat \<Rightarrow> nat) \<Rightarrow> nat \<Rightarrow> int \<Rightarrow> int \<Rightarrow> error + int list" where
  "randint raw pos high n =
     (if high \<le> 0 \<or> n < 0 then Inl RuntimeError
      else Inr (map (\<lambda>k. int (raw (pos + k) mod nat high)) [0..<nat n]))"

text \<open>\<open>torch.stack\<close> raises on an empty list and on rows of different lengths.\<close>

definition stack :: "'a list list \<Rightarrow> error + 'a list list" where
  "stack rows =
     (if rows = [] \<or> list_ex (\<lambda>r. length r \<noteq> length (hd rows)) rows
      then Inl RuntimeError else Inr rows)"

text \<open>The windows \<open>get_batch\<close> cuts once the offsets \<open>ix\<close> are drawn (lines 117--118).\<close>

definition input_window :: "token list \<Rightarrow> int \<Rightarrow> int \<Rightarrow> tensor_row" where
  "input_window data L i = astype_int64 (py_slice data i (i + L))"

definition target_window :: "token list \<Rightarrow> int \<Rightarrow> int \<Rightarrow> tensor_row" where
  "target_window data L i = astype_int64 (py_slice data (i + 1) (i + 1 + L))"

type_synonym batch = "tensor_row list \<times> tensor_row list"

definition get_batch_at :: "config \<Rightarrow> token list \<Rightarrow> int list \<Rightarrow> error + batch" where
  "get_batch_at cfg data ix =
     (case stack (map (input_window data (block_size cfg)) ix) of
        Inl e \<Rightarrow> Inl e
      | Inr x \<Rightarrow>
          (case stack (map (target_window data (block_size cfg)) ix) of
             Inl e \<Rightarrow> Inl e
           | Inr y \<Rightarrow> Inr (x, y)))"

section \<open>Program state, collaborators and observable effects\<close>

text \<open>
  \<open>model_args\<close> (line 127) is a dict with five keys in this order. Its values are
  numbers, compared by \<open>==\<close> as numbers, so they are kept as reals.
\<close>

type_synonym hyperparams = "(string \<times> real) list"

definition model_args :: "config \<Rightarrow> hyperparams" where
  "model_args cfg =
     [(''n_layer'', real_of_int (n_layer cfg)), (''n_head'', real_of_int (n_head cfg)),
      (''n_embd'', real_of_int (n_embd cfg)), (''block_size'', real_of_int (block_size cfg)),
      (''dropout'', dropout cfg)]"

text \<open>The dict saved at lines 234--240. Weights and optimizer state are opaque.\<close>

record ('w, 'o) checkpoint =
  ck_model :: 'w
  ck_optimizer :: 'o
  ck_model_args :: hyperparams
  ck_iter_num :: int
  ck_best_val_loss :: pyfloat

text \<open>
  The lines the script prints (lines 130, 134, 147, 162, 222 and 259). The step
  duration printed with the iteration line is real time and is left out.
\<close>

datatype message =
    MsgScratch
  | MsgResume string
  | MsgPretrained string
  | MsgCompiling
  | MsgStep int pyfloat pyfloat
  | MsgIter int pyfloat

text \<open>
  Every call that leaves the process, in the order it is made. \<open>Forward\<close> records the
  mode (training or not) the model is in when it is called.
\<close>

datatype ('w, 'o) event =
    InitProcessGroup string
  | MakeDirs string
  | ManualSeed int
  | Print message
  | TorchLoad string
  | WandbInit string string string
  | WandbLog int pyfloat pyfloat real
  | ModelEval
  | ModelTrain
  | GetBatch string
  | Forward bool
  | ZeroGrad
  | Backward
  | OptimizerStep
  | TorchSave string "('w, 'o) checkpoint"
  | DestroyProcessGroup

text \<open>
  The collaborators the script calls but does not define: the model and optimizer
  (module \<open>model\<close>, torch) and the random generator. \<open>forward\<close> gives the loss of a
  batch or raises; \<open>step\<close> is backward pass and optimizer step together.
\<close>

record ('w, 'o) collaborators =
  GPT :: "hyperparams \<Rightarrow> error + 'w"
  from_pretrained :: "string \<Rightarrow> error + 'w"
  model_block_size :: "'w \<Rightarrow> int"
  crop_block_size :: "'w \<Rightarrow> int \<Rightarrow> 'w"
  configure_optimizers :: "'w \<Rightarrow> real \<Rightarrow> real \<Rightarrow> real \<times> real \<Rightarrow> 'o"
  set_lr :: "real \<Rightarrow> 'o \<Rightarrow> 'o"
  forward :: "'w \<Rightarrow> bool \<Rightarrow> batch \<Rightarrow> error + pyfloat"
  step :: "'w \<Rightarrow> 'o \<Rightarrow> batch \<Rightarrow> 'w \<times> 'o"
  generator :: "int \<Rightarrow> nat \<Rightarrow> nat"

text \<open>
  What the process finds when it starts: its environment, the two token files (taken
  to exist) and the checkpoint file of the output directory, if there is one.
\<close>

record ('w, 'o) world =
  LOCAL_RANK :: "int option"
  train_data :: "token list"
  val_data :: "token list"
  ckpt_on_disk :: "('w, 'o) checkpoint option"

text \<open>
  The globals that change while the script runs, the file \<open>ckpt.pt\<close> of the output
  directory, the mode of the model, the position in the random sequence, and the
  effects so far.
\<close>

record ('w, 'o) state =
  gpu_id :: int
  ddp :: bool
  iter_num :: int
  best_val_loss :: pyfloat
  model :: 'w
  optimizer :: 'o
  training :: bool
  rng_pos :: nat
  ckpt_file :: "('w, 'o) checkpoint option"
  trace :: "('w, 'o) event list"

datatype ('a, 's) result = Return 'a 's | Raise error 's

definition emit :: "('w, 'o) event \<Rightarrow> ('w, 'o) state \<Rightarrow> ('w, 'o) state" where
  "emit e s = s\<lparr>trace := trace s @ [e]\<rparr>"

definition path_join :: "string \<Rightarrow> string \<Rightarrow> string" where
  "path_join a b = (if a = [] then b else if last a = CHR ''/'' then a @ b else a @ ''/'' @ b)"

definition ckpt_path :: "config \<Rightarrow> string" where
  "ckpt_path cfg = path_join (out_dir cfg) ''ckpt.pt''"

section \<open>\<open>get_batch\<close> and \<open>estimate_loss\<close> (lines 114--120, 170--183)\<close>

text \<open>Line 115: the array of the split.\<close>

definition split_data :: "('w, 'o) world \<Rightarrow> string \<Rightarrow> token list" where
  "split_data wld split = (if split = ''train'' then train_data wld else val_data wld)"

definition get_batch ::
  "config \<Rightarrow> ('w, 'o) collaborators \<Rightarrow> ('w, 'o) world \<Rightarrow> string \<Rightarrow> ('w, 'o) state
     \<Rightarrow> (batch, ('w, 'o) state) result" where
  "get_batch cfg ext wld split s =
     (let data = split_data wld split;
          s1 = emit (GetBatch split) s
      in case randint (generator ext (1337 + gpu_id s)) (rng_pos s)
                (int (length data) - block_size cfg) (batch_size cfg) of
           Inl e \<Rightarrow> Raise e s1
         | Inr ix \<Rightarrow>
             (let s2 = s1\<lparr>rng_pos := rng_pos s + length ix\<rparr>
              in case get_batch_at cfg data ix of
                   Inl e \<Rightarrow> Raise e s2
                 | Inr b \<Rightarrow> Return b s2))"

text \<open>\<open>losses.mean()\<close>: NaN for an empty tensor and when a loss is NaN.\<close>

definition mean :: "pyfloat list \<Rightarrow> pyfloat" where
  "mean ls =
     (if ls = [] \<or> list_ex (\<lambda>l. l = NaN) ls then NaN
      else Flt (sum_list (map (\<lambda>l. the (flt_val l)) ls) / real (length ls)))"

text \<open>
  The inner loop \<open>for k in range(eval_iters)\<close>: \<open>n\<close> iterations are left and \<open>acc\<close>
  holds the losses so far.
\<close>

fun eval_batches ::
  "config \<Rightarrow> ('w, 'o) collaborators \<Rightarrow> ('w, 'o) world \<Rightarrow> string \<Rightarrow> nat \<Rightarrow> pyfloat list
     \<Rightarrow> ('w, 'o) state \<Rightarrow> (pyfloat list, ('w, 'o) state) result" where
  "eval_batches cfg ext wld split 0 acc s = Return acc s"
| "eval_batches cfg ext wld split (Suc n) acc s =
     (case get_batch cfg ext wld split s of
        Raise e s1 \<Rightarrow> Raise e s1
      | Return b s1 \<Rightarrow>
          (let s2 = emit (Forward (training s1)) s1
           in case forward ext (model s2) (training s2) b of
                Inl e \<Rightarrow> Raise e s2
              | Inr loss \<Rightarrow> eval_batches cfg ext wld split n (acc @ [loss]) s2))"

text \<open>One split: \<open>torch.zeros(eval_iters)\<close> raises on a negative size.\<close>

definition eval_split ::
  "config \<Rightarrow> ('w, 'o) collaborators \<Rightarrow> ('w, 'o) world \<Rightarrow> string \<Rightarrow> ('w, 'o) state
     \<Rightarrow> (pyfloat, ('w, 'o) state) result" where
  "eval_split cfg ext wld split s =
     (if eval_iters cfg < 0 then Raise RuntimeError s
      else case eval_batches cfg ext wld split (nat (eval_iters cfg)) [] s of
             Raise e s1 \<Rightarrow> Raise e s1
           | Return ls s1 \<Rightarrow> Return (mean ls) s1)"

record loss_out =
  out_train :: pyfloat
  out_val :: pyfloat

definition estimate_loss ::
  "config \<Rightarrow> ('w, 'o) collaborators \<Rightarrow> ('w, 'o) world \<Rightarrow> ('w, 'o) state
     \<Rightarrow> (loss_out, ('w, 'o) state) result" where
  "estimate_loss cfg ext wld s =
     (let s1 = emit ModelEval (s\<lparr>training := False\<rparr>)
      in case eval_split cfg ext wld ''train'' s1 of
           Raise e s2 \<Rightarrow> Raise e s2
         | Return lt s2 \<Rightarrow>
             (case eval_split cfg ext wld ''val'' s2 of
                Raise e s3 \<Rightarrow> Raise e s3
              | Return lv s3 \<Rightarrow>
                  Return \<lparr>out_train = lt, out_val = lv\<rparr>
                    (emit ModelTrain (s3\<lparr>training := True\<rparr>))))"

section \<open>Start-up (lines 96--168 and 199--206)\<close>

text \<open>
  Lines 96--102: the run is distributed when \<open>LOCAL_RANK\<close> is set to something other
  than \<open>-1\<close>; then \<open>gpu_id\<close> is that rank, otherwise it is 0.
\<close>

definition is_ddp :: "('w, 'o) world \<Rightarrow> bool" where
  "is_ddp wld = ((case LOCAL_RANK wld of None \<Rightarrow> -1 | Some r \<Rightarrow> r) \<noteq> -1)"

definition rank_of :: "('w, 'o) world \<Rightarrow> int" where
  "rank_of wld = (if is_ddp wld then (case LOCAL_RANK wld of None \<Rightarrow> -1 | Some r \<Rightarrow> r) else 0)"

definition topology_events :: "config \<Rightarrow> ('w, 'o) world \<Rightarrow> ('w, 'o) event list" where
  "topology_events cfg wld =
     (if is_ddp wld then [InitProcessGroup (backend cfg)] else [])
     @ (if rank_of wld = 0 then [MakeDirs (out_dir cfg)] else [])
     @ [ManualSeed (1337 + rank_of wld)]"

text \<open>
  Lines 139--140: the loop runs over the items of the run's \<open>model_args\<close>, looks each
  key up in the checkpoint's dict (KeyError when it is missing) and asserts equality.
\<close>

fun check_model_args :: "hyperparams \<Rightarrow> hyperparams \<Rightarrow> error option" where
  "check_model_args checkpoint_model_args [] = None"
| "check_model_args checkpoint_model_args ((k, v) # kvs) =
     (case map_of checkpoint_model_args k of
        None \<Rightarrow> Some KeyError
      | Some v' \<Rightarrow>
          (if v' = v then check_model_args checkpoint_model_args kvs
           else Some AssertionError))"

text \<open>
  Lines 123--149. The result is the model, \<open>iter_num\<close>, \<open>best_val_loss\<close> and the
  loaded checkpoint, if any. \<open>load_state_dict\<close> replaces the weights of the fresh
  model by the checkpoint's. With an \<open>init_from\<close> that matches no branch the name
  \<open>model\<close> is unbound at line 151.
\<close>

definition init_model ::
  "config \<Rightarrow> ('w, 'o) collaborators \<Rightarrow> ('w, 'o) world \<Rightarrow> ('w, 'o) event list
     \<Rightarrow> error \<times> ('w, 'o) event list
        + ('w \<times> int \<times> pyfloat \<times> ('w, 'o) checkpoint option) \<times> ('w, 'o) event list" where
  "init_model cfg ext wld tr =
     (if init_from cfg = ''scratch'' then
        (let tr1 = tr @ [Print MsgScratch]
         in case GPT ext (model_args cfg) of
              Inl e \<Rightarrow> Inl (e, tr1)
            | Inr m \<Rightarrow> Inr ((m, 0, Flt 1000000000, None), tr1))
      else if init_from cfg = ''resume'' then
        (let tr1 = tr @ [Print (MsgResume (out_dir cfg)), TorchLoad (ckpt_path cfg)]
         in case ckpt_on_disk wld of
              None \<Rightarrow> Inl (FileNotFoundError, tr1)
            | Some ck \<Rightarrow>
                (case check_model_args (ck_model_args ck) (model_args cfg) of
                   Some e \<Rightarrow> Inl (e, tr1)
                 | None \<Rightarrow>
                     (case GPT ext (model_args cfg) of
                        Inl e \<Rightarrow> Inl (e, tr1)
                      | Inr m \<Rightarrow>
                          Inr ((ck_model ck, ck_iter_num ck, ck_best_val_loss ck, Some ck), tr1))))
      else if take 4 (init_from cfg) = ''gpt2'' then
        (let tr1 = tr @ [Print (MsgPretrained (init_from cfg))]
         in case from_pretrained ext (init_from cfg) of
              Inl e \<Rightarrow> Inl (e, tr1)
            | Inr m \<Rightarrow> Inr ((m, 0, Flt 1000000000, None), tr1))
      else Inl (NameError, tr))"

definition startup ::
  "config \<Rightarrow> ('w, 'o) collaborators \<Rightarrow> ('w, 'o) world
     \<Rightarrow> error \<times> ('w, 'o) event list + ('w, 'o) state" where
  "startup cfg ext wld =
     (case init_model cfg ext wld (topology_events cfg wld) of
        Inl err \<Rightarrow> Inl err
      | Inr ((m, it, best, ck), tr1) \<Rightarrow>
          (let m1 = (if block_size cfg < model_block_size ext m
                     then crop_block_size ext m (block_size cfg) else m);
               opt0 = configure_optimizers ext m1 (weight_decay cfg) (learning_rate cfg) (betas cfg);
               opt1 = (if init_from cfg = ''resume''
                       then (case ck of Some c \<Rightarrow> ck_optimizer c | None \<Rightarrow> opt0) else opt0);
               tr2 = tr1 @ (if compile_model cfg then [Print MsgCompiling] else []);
               tr3 = tr2 @ (if wandb_log cfg \<and> rank_of wld = 0
                            then [WandbInit (wandb_project cfg) (wandb_entity cfg) (wandb_run_name cfg)]
                            else [])
           in Inr \<lparr> gpu_id = rank_of wld, ddp = is_ddp wld, iter_num = it,
                    best_val_loss = best, model = m1, optimizer = opt1, training = True,
                    rng_pos = 0, ckpt_file = ckpt_on_disk wld, trace = tr3 \<rparr>))"

section \<open>The training loop (lines 210--264) and the end of the script\<close>

text \<open>Lines 213--218: the learning rate of this iteration.\<close>

definition apply_lr ::
  "config \<Rightarrow> ('w, 'o) collaborators \<Rightarrow> ('w, 'o) state \<Rightarrow> (real, ('w, 'o) state) result" where
  "apply_lr cfg ext s =
     (if decay_lr cfg then
        (case get_lr cfg (iter_num s) of
           Inl e \<Rightarrow> Raise e s
         | Inr lr \<Rightarrow> Return lr (s\<lparr>optimizer := set_lr ext lr (optimizer s)\<rparr>))
      else Return (learning_rate cfg) s)"

text \<open>Lines 234--241: the checkpoint dict and \<open>torch.save\<close>, which replaces the file.\<close>

definition make_checkpoint :: "config \<Rightarrow> ('w, 'o) state \<Rightarrow> ('w, 'o) checkpoint" where
  "make_checkpoint cfg s =
     \<lparr> ck_model = model s, ck_optimizer = optimizer s, ck_model_args = model_args cfg,
       ck_iter_num = iter_num s, ck_best_val_loss = best_val_loss s \<rparr>"

definition save_checkpoint :: "config \<Rightarrow> ('w, 'o) state \<Rightarrow> ('w, 'o) state" where
  "save_checkpoint cfg s =
     emit (TorchSave (ckpt_path cfg) (make_checkpoint cfg s))
       (s\<lparr>ckpt_file := Some (make_checkpoint cfg s)\<rparr>)"

text \<open>Lines 220--241. \<open>iter_num % eval_interval\<close> is evaluated first and raises on 0.\<close>

definition eval_phase ::
  "config \<Rightarrow> ('w, 'o) collaborators \<Rightarrow> ('w, 'o) world \<Rightarrow> real \<Rightarrow> ('w, 'o) state
     \<Rightarrow> (unit, ('w, 'o) state) result" where
  "eval_phase cfg ext wld lr s =
     (if eval_interval cfg = 0 then Raise ZeroDivisionError s
      else if iter_num s mod eval_interval cfg = 0 \<and> gpu_id s = 0 then
        (case estimate_loss cfg ext wld s of
           Raise e s1 \<Rightarrow> Raise e s1
         | Return losses s1 \<Rightarrow>
             (let s2 = emit (Print (MsgStep (iter_num s1) (out_train losses) (out_val losses))) s1;
                  s3 = (if wandb_log cfg
                        then emit (WandbLog (iter_num s2) (out_train losses) (out_val losses) lr) s2
                        else s2)
              in if flt_less (out_val losses) (best_val_loss s3) then
                   (let s4 = s3\<lparr>best_val_loss := out_val losses\<rparr>
                    in if iter_num s4 > 0 then Return () (save_checkpoint cfg s4)
                       else Return () s4)
                 else Return () s3))
      else Return () s)"

text \<open>Lines 245--259: one training step and its log line.\<close>

definition train_phase ::
  "config \<Rightarrow> ('w, 'o) collaborators \<Rightarrow> ('w, 'o) world \<Rightarrow> ('w, 'o) state
     \<Rightarrow> (unit, ('w, 'o) state) result" where
  "train_phase cfg ext wld s =
     (case get_batch cfg ext wld ''train'' s of
        Raise e s1 \<Rightarrow> Raise e s1
      | Return b s1 \<Rightarrow>
          (let s2 = emit (Forward (training s1)) s1
           in case forward ext (model s2) (training s2) b of
                Inl e \<Rightarrow> Raise e s2
              | Inr loss \<Rightarrow>
                  (let s3 = emit OptimizerStep (emit Backward (emit ZeroGrad s2));
                       s4 = s3\<lparr>model := fst (step ext (model s2) (optimizer s2) b),
                               optimizer := snd (step ext (model s2) (optimizer s2) b)\<rparr>
                   in if log_interval cfg = 0 then Raise ZeroDivisionError s4
                      else if iter_num s4 mod log_interval cfg = 0 \<and> gpu_id s4 = 0
                      then Return () (emit (Print (MsgIter (iter_num s4) loss)) s4)
                      else Return () s4)))"

text \<open>
  One pass through the body of \<open>while True\<close>. The value returned says whether the pass
  ended in a \<open>break\<close> (line 243 or line 264).
\<close>

definition loop_body ::
  "config \<Rightarrow> ('w, 'o) collaborators \<Rightarrow> ('w, 'o) world \<Rightarrow> ('w, 'o) state
     \<Rightarrow> (bool, ('w, 'o) state) result" where
  "loop_body cfg ext wld s =
     (case apply_lr cfg ext s of
        Raise e s1 \<Rightarrow> Raise e s1
      | Return lr s1 \<Rightarrow>
          (case eval_phase cfg ext wld lr s1 of
             Raise e s2 \<Rightarrow> Raise e s2
           | Return _ s2 \<Rightarrow>
               (if iter_num s2 = 0 \<and> eval_only cfg then Return True s2
                else case train_phase cfg ext wld s2 of
                       Raise e s3 \<Rightarrow> Raise e s3
                     | Return _ s3 \<Rightarrow>
                         (let s4 = s3\<lparr>iter_num := iter_num s3 + 1\<rparr>
                          in if iter_num s4 \<ge> max_iters cfg then Return True s4
                             else Return False s4))))"

function train_loop ::
  "config \<Rightarrow> ('w, 'o) collaborators \<Rightarrow> ('w, 'o) world \<Rightarrow> ('w, 'o) state
     \<Rightarrow> (unit, ('w, 'o) state) result" where
  "train_loop cfg ext wld s =
     (case loop_body cfg ext wld s of
        Raise e s' \<Rightarrow> Raise e s'
      | Return brk s' \<Rightarrow> (if brk then Return () s' else train_loop cfg ext wld s'))"
  by pat_completeness auto

text \<open>The state a result carries, whether the call returned or raised.\<close>

fun res_state :: "('a, 's) result \<Rightarrow> 's" where
  "res_state (Return _ s) = s"
| "res_state (Raise _ s) = s"

text \<open>
  Line 266. The call is made on every run. \<open>torch.distributed\<close> asserts that a default
  process group exists, so on a run that never initialised one (\<open>ddp\<close> false) the call
  raises AssertionError.
\<close>

definition destroy_process_group ::
  "('w, 'o) state \<Rightarrow> error \<times> ('w, 'o) event list + ('w, 'o) state" where
  "destroy_process_group s =
     (let s1 = emit DestroyProcessGroup s
      in if ddp s then Inr s1 else Inl (AssertionError, trace s1))"

text \<open>
  The whole script: start-up, the loop, and line 266. An exception ends the process
  where it is raised; the result then is the error and the effects up to that point.
\<close>

definition run_script ::
  "config \<Rightarrow> ('w, 'o) collaborators \<Rightarrow> ('w, 'o) world
     \<Rightarrow> error \<times> ('w, 'o) event list + ('w, 'o) state" where
  "run_script cfg ext wld =
     (case startup cfg ext wld of
        Inl err \<Rightarrow> Inl err
      | Inr s0 \<Rightarrow>
          (case train_loop cfg ext wld s0 of
             Raise e s \<Rightarrow> Inl (e, trace s)
           | Return _ s \<Rightarrow> destroy_process_group s))"

definition run_trace :: "error \<times> ('w, 'o) event list + ('w, 'o) state \<Rightarrow> ('w, 'o) event list" where
  "run_trace r = (case r of Inl (e, tr) \<Rightarrow> tr | Inr s \<Rightarrow> trace s)"

text \<open>
  The effects a pass through the loop can have. Those of the second group are behind
  \<open>gpu_id == 0\<close> in the source; \<open>primary\<close> says whether that test holds.
\<close>

fun loop_event :: "bool \<Rightarrow> ('w, 'o) event \<Rightarrow> bool" where
  "loop_event primary (GetBatch split) = True"
| "loop_event primary (Forward mode) = True"
| "loop_event primary ZeroGrad = True"
| "loop_event primary Backward = True"
| "loop_event primary OptimizerStep = True"
| "loop_event primary ModelEval = primary"
| "loop_event primary ModelTrain = primary"
| "loop_event primary (Print (MsgStep i lt lv)) = primary"
| "loop_event primary (Print (MsgIter i l)) = primary"
| "loop_event primary (WandbLog i lt lv lr) = primary"
| "loop_event primary (TorchSave path ck) = primary"
| "loop_event primary _ = False"

text \<open>The effects of lines 245--259 alone.\<close>

fun train_event :: "bool \<Rightarrow> ('w, 'o) event \<Rightarrow> bool" where
  "train_event primary (GetBatch split) = True"
| "train_event primary (Forward mode) = True"
| "train_event primary ZeroGrad = True"
| "train_event primary Backward = True"
| "train_event primary OptimizerStep = True"
| "train_event primary (Print (MsgIter i l)) = primary"
| "train_event primary _ = False"

text \<open>The effects of lines 220--241 alone.\<close>

fun eval_event :: "('w, 'o) event \<Rightarrow> bool" where
  "eval_event ModelEval = True"
| "eval_event ModelTrain = True"
| "eval_event (GetBatch split) = True"
| "eval_event (Forward mode) = (\<not> mode)"
| "eval_event (Print (MsgStep i lt lv)) = True"
| "eval_event (WandbLog i lt lv lr) = True"
| "eval_event (TorchSave path ck) = True"
| "eval_event _ = False"

section \<open>What each operation leaves unchanged, and what it adds to the trace\<close>

text \<open>The fields no sampling or evaluation call touches.\<close>

definition same_run :: "('w, 'o) state \<Rightarrow> ('w, 'o) state \<Rightarrow> bool" where
  "same_run s s' \<longleftrightarrow>
     gpu_id s' = gpu_id s \<and> ddp s' = ddp s \<and> iter_num s' = iter_num s
     \<and> best_val_loss s' = best_val_loss s \<and> model s' = model s
     \<and> optimizer s' = optimizer s \<and> ckpt_file s' = ckpt_file s"

lemma same_run_refl [simp]: "same_run s s"
  by (simp add: same_run_def)

lemma same_run_trans: "same_run s s1 \<Longrightarrow> same_run s1 s2 \<Longrightarrow> same_run s s2"
  by (simp add: same_run_def)

lemma get_batch_same:
  assumes "res_state (get_batch cfg ext wld split s) = s'"
  shows "same_run s s' \<and> training s' = training s"
  using assms by (auto simp: get_batch_def emit_def Let_def same_run_def split: sum.splits)

lemma get_batch_trace:
  assumes "res_state (get_batch cfg ext wld split s) = s'"
  shows "trace s' = trace s @ [GetBatch split]"
  using assms by (auto simp: get_batch_def emit_def Let_def split: sum.splits)

lemma eval_batches_same:
  assumes "res_state (eval_batches cfg ext wld split n acc s) = s'"
  shows "same_run s s' \<and> training s' = training s"
  using assms
proof (induction n arbitrary: acc s)
  case 0
  then show ?case by auto
next
  case (Suc n)
  show ?case
  proof (cases "get_batch cfg ext wld split s")
    case (Raise e s1)
    with Suc.prems get_batch_same [of cfg ext wld split s s1] show ?thesis by simp
  next
    case (Return b s1)
    with get_batch_same [of cfg ext wld split s s1]
    have s1: "same_run s s1" "training s1 = training s" by simp_all
    show ?thesis
    proof (cases "forward ext (model s1) (training s1) b")
      case (Inl e)
      with Return Suc.prems s1 show ?thesis
        by (auto simp: emit_def Let_def same_run_def)
    next
      case (Inr loss)
      let ?s2 = "emit (Forward (training s1)) s1"
      have "res_state (eval_batches cfg ext wld split n (acc @ [loss]) ?s2) = s'"
        using Return Inr Suc.prems by (simp add: emit_def Let_def)
      from Suc.IH [OF this] s1 show ?thesis
        by (auto simp: emit_def same_run_def)
    qed
  qed
qed

lemma eval_batches_trace:
  assumes "res_state (eval_batches cfg ext wld split n acc s) = s'"
    and "\<not> P (GetBatch split)" and "\<not> P (Forward (training s))"
  shows "filter P (trace s') = filter P (trace s)"
  using assms
proof (induction n arbitrary: acc s)
  case 0
  then show ?case by auto
next
  case (Suc n)
  show ?case
  proof (cases "get_batch cfg ext wld split s")
    case (Raise e s1)
    with Suc.prems get_batch_trace [of cfg ext wld split s s1] show ?thesis by simp
  next
    case (Return b s1)
    with get_batch_same [of cfg ext wld split s s1] get_batch_trace [of cfg ext wld split s s1]
    have s1: "training s1 = training s" "trace s1 = trace s @ [GetBatch split]" by simp_all
    show ?thesis
    proof (cases "forward ext (model s1) (training s1) b")
      case (Inl e)
      with Return Suc.prems s1 show ?thesis
        by (auto simp: emit_def Let_def)
    next
      case (Inr loss)
      let ?s2 = "emit (Forward (training s1)) s1"
      have "res_state (eval_batches cfg ext wld split n (acc @ [loss]) ?s2) = s'"
        using Return Inr Suc.prems by (simp add: emit_def Let_def)
      from Suc.IH [OF this] Suc.prems(2,3) s1 show ?thesis
        by (auto simp: emit_def)
    qed
  qed
qed

lemma eval_batches_Return_trace:
  assumes "eval_batches cfg ext wld split n acc s = Return ls s'"
  shows "trace s' = trace s @ concat (replicate n [GetBatch split, Forward (training s)])"
  using assms
proof (induction n arbitrary: acc s)
  case 0
  then show ?case by auto
next
  case (Suc n)
  from Suc.prems obtain b s1 where gb: "get_batch cfg ext wld split s = Return b s1"
    by (auto split: result.splits)
  with get_batch_same [of cfg ext wld split s s1] get_batch_trace [of cfg ext wld split s s1]
  have s1: "training s1 = training s" "trace s1 = trace s @ [GetBatch split]" by simp_all
  let ?s2 = "emit (Forward (training s1)) s1"
  from Suc.prems gb obtain loss where
    "eval_batches cfg ext wld split n (acc @ [loss]) ?s2 = Return ls s'"
    by (auto simp: Let_def emit_def split: sum.splits)
  from Suc.IH [OF this] s1 show ?case
    by (simp add: emit_def)
qed

lemma eval_split_same:
  assumes "res_state (eval_split cfg ext wld split s) = s'"
  shows "same_run s s' \<and> training s' = training s"
proof (cases "eval_iters cfg < 0")
  case True
  with assms show ?thesis by (simp add: eval_split_def)
next
  case False
  with assms have "res_state (eval_batches cfg ext wld split (nat (eval_iters cfg)) [] s) = s'"
    by (auto simp: eval_split_def split: result.splits)
  then show ?thesis by (rule eval_batches_same)
qed

lemma eval_split_trace:
  assumes "res_state (eval_split cfg ext wld split s) = s'"
    and "\<not> P (GetBatch split)" and "\<not> P (Forward (training s))"
  shows "filter P (trace s') = filter P (trace s)"
proof (cases "eval_iters cfg < 0")
  case True
  with assms show ?thesis by (simp add: eval_split_def)
next
  case False
  with assms have "res_state (eval_batches cfg ext wld split (nat (eval_iters cfg)) [] s) = s'"
    by (auto simp: eval_split_def split: result.splits)
  then show ?thesis using assms(2,3) by (rule eval_batches_trace)
qed

lemma eval_split_Return_trace:
  assumes "eval_split cfg ext wld split s = Return l s'"
  shows "trace s' = trace s
           @ concat (replicate (nat (eval_iters cfg)) [GetBatch split, Forward (training s)])"
  using assms
  by (auto simp: eval_split_def split: if_splits result.splits dest: eval_batches_Return_trace)

lemma estimate_loss_same:
  assumes "res_state (estimate_loss cfg ext wld s) = s'"
  shows "same_run s s'"
proof -
  let ?s1 = "emit ModelEval (s\<lparr>training := False\<rparr>)"
  have s1: "same_run s ?s1" by (simp add: same_run_def emit_def)
  show ?thesis
  proof (cases "eval_split cfg ext wld ''train'' ?s1")
    case (Raise e s2)
    with assms have "s' = s2" by (simp add: estimate_loss_def Let_def)
    with Raise eval_split_same [of cfg ext wld "''train''" ?s1 s2] s1 show ?thesis
      by (auto intro: same_run_trans)
  next
    case (Return lt s2)
    with eval_split_same [of cfg ext wld "''train''" ?s1 s2] s1
    have s2: "same_run s s2" by (auto intro: same_run_trans)
    show ?thesis
    proof (cases "eval_split cfg ext wld ''val'' s2")
      case (Raise e s3)
      with assms Return have "s' = s3" by (simp add: estimate_loss_def Let_def)
      with Raise eval_split_same [of cfg ext wld "''val''" s2 s3] s2 show ?thesis
        by (auto intro: same_run_trans)
    next
      case Return2: (Return lv s3)
      with assms Return have "s' = emit ModelTrain (s3\<lparr>training := True\<rparr>)"
        by (simp add: estimate_loss_def Let_def)
      moreover from Return2 eval_split_same [of cfg ext wld "''val''" s2 s3] s2
      have "same_run s s3" by (auto intro: same_run_trans)
      ultimately show ?thesis by (simp add: same_run_def emit_def)
    qed
  qed
qed

lemma estimate_loss_Raise_mode:
  assumes "estimate_loss cfg ext wld s = Raise e s'"
  shows "\<not> training s'"
proof -
  let ?s1 = "emit ModelEval (s\<lparr>training := False\<rparr>)"
  have s1: "\<not> training ?s1" by (simp add: emit_def)
  show ?thesis
  proof (cases "eval_split cfg ext wld ''train'' ?s1")
    case (Raise e1 s2)
    with assms have "s' = s2" by (simp add: estimate_loss_def Let_def)
    with Raise eval_split_same [of cfg ext wld "''train''" ?s1 s2] s1 show ?thesis
      by simp
  next
    case (Return lt s2)
    with eval_split_same [of cfg ext wld "''train''" ?s1 s2] s1
    have s2: "\<not> training s2" by simp
    from assms Return obtain e3 where "eval_split cfg ext wld ''val'' s2 = Raise e3 s'"
      by (auto simp: estimate_loss_def Let_def split: result.splits)
    with eval_split_same [of cfg ext wld "''val''" s2 s'] s2 show ?thesis by simp
  qed
qed

lemma estimate_loss_Return_trace:
  assumes "estimate_loss cfg ext wld s = Return out s'"
  shows "training s' \<and>
         trace s' = trace s @ [ModelEval]
           @ concat (replicate (nat (eval_iters cfg)) [GetBatch ''train'', Forward False])
           @ concat (replicate (nat (eval_iters cfg)) [GetBatch ''val'', Forward False])
           @ [ModelTrain]"
proof -
  let ?s1 = "emit ModelEval (s\<lparr>training := False\<rparr>)"
  from assms obtain lt s2 where r1: "eval_split cfg ext wld ''train'' ?s1 = Return lt s2"
    by (auto simp: estimate_loss_def Let_def split: result.splits)
  with assms obtain lv s3 where r2: "eval_split cfg ext wld ''val'' s2 = Return lv s3"
    and s': "s' = emit ModelTrain (s3\<lparr>training := True\<rparr>)"
    by (auto simp: estimate_loss_def Let_def split: result.splits)
  from r1 eval_split_same [of cfg ext wld "''train''" ?s1 s2]
  have m2: "\<not> training s2" by (simp add: emit_def)
  from eval_split_Return_trace [OF r1] eval_split_Return_trace [OF r2] m2 s'
  show ?thesis by (simp add: emit_def)
qed

lemma estimate_loss_trace:
  assumes "res_state (estimate_loss cfg ext wld s) = s'"
    and "\<not> P ModelEval" and "\<not> P ModelTrain" and "\<not> P (Forward False)"
    and "\<not> P (GetBatch ''train'')" and "\<not> P (GetBatch ''val'')"
  shows "filter P (trace s') = filter P (trace s)"
proof -
  let ?s1 = "emit ModelEval (s\<lparr>training := False\<rparr>)"
  have s1: "filter P (trace ?s1) = filter P (trace s)" "\<not> training ?s1"
    using assms(2) by (simp_all add: emit_def)
  show ?thesis
  proof (cases "eval_split cfg ext wld ''train'' ?s1")
    case (Raise e s2)
    with assms have "s' = s2" by (simp add: estimate_loss_def Let_def)
    with Raise eval_split_trace [of cfg ext wld "''train''" ?s1 s2 P] s1 assms show ?thesis
      by simp
  next
    case (Return lt s2)
    with eval_split_same [of cfg ext wld "''train''" ?s1 s2]
      eval_split_trace [of cfg ext wld "''train''" ?s1 s2 P] s1 assms
    have s2: "filter P (trace s2) = filter P (trace s)" "\<not> training s2" by simp_all
    show ?thesis
    proof (cases "eval_split cfg ext wld ''val'' s2")
      case (Raise e s3)
      with assms Return have "s' = s3" by (simp add: estimate_loss_def Let_def)
      with Raise eval_split_trace [of cfg ext wld "''val''" s2 s3 P] s2 assms show ?thesis
        by simp
    next
      case Return2: (Return lv s3)
      with assms Return have "s' = emit ModelTrain (s3\<lparr>training := True\<rparr>)"
        by (simp add: estimate_loss_def Let_def)
      moreover from Return2 eval_split_trace [of cfg ext wld "''val''" s2 s3 P] s2 assms
      have "filter P (trace s3) = filter P (trace s)" by simp
      ultimately show ?thesis using assms(3) by (simp add: emit_def)
    qed
  qed
qed

lemma apply_lr_same:
  assumes "res_state (apply_lr cfg ext s) = s'"
  shows "gpu_id s' = gpu_id s \<and> ddp s' = ddp s \<and> iter_num s' = iter_num s
         \<and> best_val_loss s' = best_val_loss s \<and> model s' = model s
         \<and> training s' = training s \<and> ckpt_file s' = ckpt_file s \<and> trace s' = trace s"
  using assms by (auto simp: apply_lr_def split: if_splits sum.splits)

lemma eval_phase_skip:
  assumes "\<not> (eval_interval cfg \<noteq> 0 \<and> iter_num s mod eval_interval cfg = 0 \<and> gpu_id s = 0)"
  shows "res_state (eval_phase cfg ext wld lr s) = s"
  using assms by (auto simp: eval_phase_def)

lemma eval_phase_same:
  assumes "res_state (eval_phase cfg ext wld lr s) = s'"
  shows "gpu_id s' = gpu_id s \<and> ddp s' = ddp s \<and> iter_num s' = iter_num s
         \<and> model s' = model s \<and> optimizer s' = optimizer s"
proof (cases "eval_interval cfg \<noteq> 0 \<and> iter_num s mod eval_interval cfg = 0 \<and> gpu_id s = 0")
  case False
  from eval_phase_skip [OF this, of ext wld lr] assms show ?thesis by simp
next
  case True
  show ?thesis
  proof (cases "estimate_loss cfg ext wld s")
    case (Raise e s1)
    with estimate_loss_same [of cfg ext wld s s1] assms True show ?thesis
      by (auto simp: eval_phase_def same_run_def)
  next
    case (Return out s1)
    with estimate_loss_same [of cfg ext wld s s1] assms True show ?thesis
      by (auto simp: eval_phase_def same_run_def save_checkpoint_def emit_def Let_def
          split: if_splits)
  qed
qed

lemma eval_event_loop: "eval_event e \<Longrightarrow> loop_event True e"
  by (cases e rule: eval_event.cases) simp_all

lemma eval_phase_trace:
  assumes "res_state (eval_phase cfg ext wld lr s) = s'"
    and P: "\<And>e. gpu_id s = 0 \<Longrightarrow> eval_event e \<Longrightarrow> \<not> P e"
  shows "filter P (trace s') = filter P (trace s)"
proof (cases "eval_interval cfg \<noteq> 0 \<and> iter_num s mod eval_interval cfg = 0 \<and> gpu_id s = 0")
  case False
  from eval_phase_skip [OF this, of ext wld lr] assms show ?thesis by simp
next
  case True
  then have P': "\<And>e. eval_event e \<Longrightarrow> \<not> P e" using P by simp
  have est: "filter P (trace s1) = filter P (trace s)"
    if "res_state (estimate_loss cfg ext wld s) = s1" for s1
    using that by (rule estimate_loss_trace) (simp_all add: P')
  show ?thesis
  proof (cases "estimate_loss cfg ext wld s")
    case (Raise e s1)
    with est [of s1] assms True show ?thesis
      by (auto simp: eval_phase_def)
  next
    case (Return out s1)
    with est [of s1] assms(1) True show ?thesis
      by (auto simp: eval_phase_def save_checkpoint_def emit_def Let_def P'
          split: if_splits)
  qed
qed

lemma train_phase_same:
  assumes "res_state (train_phase cfg ext wld s) = s'"
  shows "gpu_id s' = gpu_id s \<and> ddp s' = ddp s \<and> iter_num s' = iter_num s
         \<and> best_val_loss s' = best_val_loss s \<and> training s' = training s
         \<and> ckpt_file s' = ckpt_file s"
proof (cases "get_batch cfg ext wld ''train'' s")
  case (Raise e s1)
  with get_batch_same [of cfg ext wld "''train''" s s1] assms show ?thesis
    by (simp add: train_phase_def same_run_def)
next
  case (Return b s1)
  with get_batch_same [of cfg ext wld "''train''" s s1] assms show ?thesis
    by (auto simp: train_phase_def same_run_def emit_def Let_def split: sum.splits if_splits)
qed

lemma train_event_loop: "train_event primary e \<Longrightarrow> loop_event primary e"
  by (cases "(primary, e)" rule: train_event.cases) simp_all

lemma train_phase_trace:
  assumes "res_state (train_phase cfg ext wld s) = s'"
    and P: "\<And>e. train_event (gpu_id s = 0) e \<Longrightarrow> \<not> P e"
  shows "filter P (trace s') = filter P (trace s)"
proof (cases "get_batch cfg ext wld ''train'' s")
  case (Raise e s1)
  with get_batch_trace [of cfg ext wld "''train''" s s1] assms show ?thesis
    by (simp add: train_phase_def)
next
  case (Return b s1)
  with get_batch_same [of cfg ext wld "''train''" s s1]
    get_batch_trace [of cfg ext wld "''train''" s s1] assms(1)
  show ?thesis
    by (auto simp: train_phase_def same_run_def emit_def Let_def P split: sum.splits if_splits)
qed

lemma train_phase_Return_trace:
  assumes "train_phase cfg ext wld s = Return u s'"
  shows "\<exists>loss. trace s' = trace s
           @ [GetBatch ''train'', Forward (training s), ZeroGrad, Backward, OptimizerStep]
           @ (if iter_num s mod log_interval cfg = 0 \<and> gpu_id s = 0
              then [Print (MsgIter (iter_num s) loss)] else [])"
proof -
  from assms obtain b s1 where gb: "get_batch cfg ext wld ''train'' s = Return b s1"
    by (auto simp: train_phase_def split: result.splits)
  with get_batch_same [of cfg ext wld "''train''" s s1]
    get_batch_trace [of cfg ext wld "''train''" s s1] assms(1)
  show ?thesis
    by (auto simp: train_phase_def same_run_def emit_def Let_def split: sum.splits if_splits)
qed

lemma loop_body_cases:
  obtains (lr_raise) e where "apply_lr cfg ext s = Raise e s"
      and "loop_body cfg ext wld s = Raise e s"
  | (eval_raise) lr s1 e s2 where "apply_lr cfg ext s = Return lr s1"
      and "eval_phase cfg ext wld lr s1 = Raise e s2"
      and "loop_body cfg ext wld s = Raise e s2"
  | (eval_only_break) lr s1 u s2 where "apply_lr cfg ext s = Return lr s1"
      and "eval_phase cfg ext wld lr s1 = Return u s2"
      and "iter_num s2 = 0 \<and> eval_only cfg"
      and "loop_body cfg ext wld s = Return True s2"
  | (train_raise) lr s1 u s2 e s3 where "apply_lr cfg ext s = Return lr s1"
      and "eval_phase cfg ext wld lr s1 = Return u s2"
      and "\<not> (iter_num s2 = 0 \<and> eval_only cfg)"
      and "train_phase cfg ext wld s2 = Raise e s3"
      and "loop_body cfg ext wld s = Raise e s3"
  | (step) lr s1 u s2 u' s3 where "apply_lr cfg ext s = Return lr s1"
      and "eval_phase cfg ext wld lr s1 = Return u s2"
      and "\<not> (iter_num s2 = 0 \<and> eval_only cfg)"
      and "train_phase cfg ext wld s2 = Return u' s3"
      and "loop_body cfg ext wld s
             = Return (max_iters cfg \<le> iter_num s3 + 1) (s3\<lparr>iter_num := iter_num s3 + 1\<rparr>)"
proof (cases "apply_lr cfg ext s")
  case (Raise e s1)
  then have "s1 = s" by (auto simp: apply_lr_def split: if_splits sum.splits)
  with Raise show ?thesis by (intro lr_raise [of e]) (simp_all add: loop_body_def)
next
  case r1: (Return lr s1)
  show ?thesis
  proof (cases "eval_phase cfg ext wld lr s1")
    case (Raise e s2)
    with r1 show ?thesis by (intro eval_raise [of lr s1 e s2]) (simp_all add: loop_body_def)
  next
    case r2: (Return u s2)
    show ?thesis
    proof (cases "iter_num s2 = 0 \<and> eval_only cfg")
      case True
      with r1 r2 show ?thesis
        by (intro eval_only_break [of lr s1 u s2]) (simp_all add: loop_body_def)
    next
      case False
      show ?thesis
      proof (cases "train_phase cfg ext wld s2")
        case (Raise e s3)
        with r1 r2 False show ?thesis
          by (intro train_raise [of lr s1 u s2 e s3]) (auto simp: loop_body_def)
      next
        case (Return u' s3)
        with r1 r2 False show ?thesis
          by (intro step [of lr s1 u s2 u' s3]) (auto simp: loop_body_def Let_def)
      qed
    qed
  qed
qed

lemma loop_body_same:
  assumes "res_state (loop_body cfg ext wld s) = s'"
  shows "gpu_id s' = gpu_id s \<and> ddp s' = ddp s"
proof (cases rule: loop_body_cases [of cfg ext s wld])
  case (lr_raise e)
  with assms show ?thesis by simp
next
  case (eval_raise lr s1 e s2)
  with assms apply_lr_same [of cfg ext s s1] eval_phase_same [of cfg ext wld lr s1 s2]
  show ?thesis by simp
next
  case (eval_only_break lr s1 u s2)
  with assms apply_lr_same [of cfg ext s s1] eval_phase_same [of cfg ext wld lr s1 s2]
  show ?thesis by simp
next
  case (train_raise lr s1 u s2 e s3)
  with assms apply_lr_same [of cfg ext s s1] eval_phase_same [of cfg ext wld lr s1 s2]
    train_phase_same [of cfg ext wld s2 s3]
  show ?thesis by simp
next
  case (step lr s1 u s2 u' s3)
  with assms apply_lr_same [of cfg ext s s1] eval_phase_same [of cfg ext wld lr s1 s2]
    train_phase_same [of cfg ext wld s2 s3]
  show ?thesis by auto
qed

lemma loop_body_trace:
  assumes "res_state (loop_body cfg ext wld s) = s'"
    and P: "\<And>e. loop_event (gpu_id s = 0) e \<Longrightarrow> \<not> P e"
  shows "filter P (trace s') = filter P (trace s)"
proof -
  have ev: "filter P (trace s2) = filter P (trace s)"
    if "apply_lr cfg ext s = Return lr s1" and "res_state (eval_phase cfg ext wld lr s1) = s2"
    for lr s1 s2
  proof -
    from that(1) apply_lr_same [of cfg ext s s1]
    have s1: "gpu_id s1 = gpu_id s" "trace s1 = trace s" by simp_all
    have "\<not> P e" if "gpu_id s1 = 0" and "eval_event e" for e
      using that s1 P [of e] eval_event_loop [of e] by simp
    from eval_phase_trace [OF that(2), of P, OF this] s1 show ?thesis by simp
  qed
  have tr: "filter P (trace s3) = filter P (trace s)"
    if "apply_lr cfg ext s = Return lr s1" and "eval_phase cfg ext wld lr s1 = Return u s2"
      and "res_state (train_phase cfg ext wld s2) = s3"
    for lr s1 u s2 s3
  proof -
    from that(1,2) apply_lr_same [of cfg ext s s1] eval_phase_same [of cfg ext wld lr s1 s2]
    have s2: "gpu_id s2 = gpu_id s" by simp
    have "\<not> P e" if "train_event (gpu_id s2 = 0) e" for e
      using that s2 P [of e] train_event_loop [of "gpu_id s = 0" e] by simp
    from train_phase_trace [OF that(3), of P, OF this] ev [OF that(1), of s2] that(2)
    show ?thesis by simp
  qed
  show ?thesis
  proof (cases rule: loop_body_cases [of cfg ext s wld])
    case (lr_raise e)
    with assms show ?thesis by simp
  next
    case (eval_raise lr s1 e s2)
    with assms(1) ev [of lr s1 s2] show ?thesis by simp
  next
    case (eval_only_break lr s1 u s2)
    with assms(1) ev [of lr s1 s2] show ?thesis by simp
  next
    case (train_raise lr s1 u s2 e s3)
    with assms(1) tr [of lr s1 u s2 s3] show ?thesis by simp
  next
    case (step lr s1 u s2 u' s3)
    with assms(1) tr [of lr s1 u s2 s3] show ?thesis by auto
  qed
qed

text \<open>How a pass that returns moves the iteration counter and the count of steps.\<close>

lemma loop_body_Return:
  assumes "loop_body cfg ext wld s = Return brk s'"
  shows "if iter_num s = 0 \<and> eval_only cfg
         then brk \<and> iter_num s' = 0
              \<and> filter (\<lambda>e. e = OptimizerStep) (trace s') = filter (\<lambda>e. e = OptimizerStep) (trace s)
         else iter_num s' = iter_num s + 1 \<and> brk = (max_iters cfg \<le> iter_num s')
              \<and> filter (\<lambda>e. e = OptimizerStep) (trace s')
                  = filter (\<lambda>e. e = OptimizerStep) (trace s) @ [OptimizerStep]"
proof (cases rule: loop_body_cases [of cfg ext s wld])
  case (lr_raise e)
  with assms show ?thesis by simp
next
  case (eval_raise lr s1 e s2)
  with assms show ?thesis by simp
next
  case (eval_only_break lr s1 u s2)
  have "filter (\<lambda>e. e = OptimizerStep) (trace s2) = filter (\<lambda>e. e = OptimizerStep) (trace s1)"
    by (rule eval_phase_trace [of cfg ext wld lr s1]) (use eval_only_break in auto)
  with eval_only_break assms apply_lr_same [of cfg ext s s1]
    eval_phase_same [of cfg ext wld lr s1 s2]
  show ?thesis by auto
next
  case (train_raise lr s1 u s2 e s3)
  with assms show ?thesis by simp
next
  case (step lr s1 u s2 u' s3)
  have "filter (\<lambda>e. e = OptimizerStep) (trace s2) = filter (\<lambda>e. e = OptimizerStep) (trace s1)"
    by (rule eval_phase_trace [of cfg ext wld lr s1]) (use step in auto)
  moreover from train_phase_Return_trace [OF step(4)]
  have "filter (\<lambda>e. e = OptimizerStep) (trace s3)
          = filter (\<lambda>e. e = OptimizerStep) (trace s2) @ [OptimizerStep]" by auto
  ultimately show ?thesis
    using step assms apply_lr_same [of cfg ext s s1] eval_phase_same [of cfg ext wld lr s1 s2]
      train_phase_same [of cfg ext wld s2 s3]
    by auto
qed

termination train_loop
proof (relation "measure (\<lambda>(cfg, ext, wld, s). nat (max_iters cfg - iter_num s))")
  show "wf (measure (\<lambda>(cfg, ext, wld, s). nat (max_iters cfg - iter_num s)))" by simp
next
  fix cfg :: config and ext :: "('w, 'o) collaborators" and wld :: "('w, 'o) world"
    and s s' :: "('w, 'o) state" and brk
  assume "loop_body cfg ext wld s = Return brk s'" and "\<not> brk"
  with loop_body_Return [of cfg ext wld s brk s']
  have "iter_num s' = iter_num s + 1 \<and> iter_num s' < max_iters cfg"
    by (auto split: if_splits)
  then show "((cfg, ext, wld, s'), (cfg, ext, wld, s))
               \<in> measure (\<lambda>(cfg, ext, wld, s). nat (max_iters cfg - iter_num s))"
    by simp
qed

declare train_loop.simps [simp del]

section \<open>The loop as a whole\<close>

lemma train_loop_same:
  assumes "res_state (train_loop cfg ext wld s) = s'"
  shows "gpu_id s' = gpu_id s \<and> ddp s' = ddp s"
  using assms
proof (induction cfg ext wld s rule: train_loop.induct)
  case (1 cfg ext wld s)
  show ?case
  proof (cases "loop_body cfg ext wld s")
    case (Raise e s1)
    with "1.prems" have "s' = s1" by (simp add: train_loop.simps)
    with Raise loop_body_same [of cfg ext wld s s1] show ?thesis by simp
  next
    case (Return brk s1)
    with loop_body_same [of cfg ext wld s s1]
    have s1: "gpu_id s1 = gpu_id s \<and> ddp s1 = ddp s" by simp
    show ?thesis
    proof (cases brk)
      case True
      with Return "1.prems" have "s' = s1" by (simp add: train_loop.simps)
      with s1 show ?thesis by simp
    next
      case False
      with Return "1.prems" have "res_state (train_loop cfg ext wld s1) = s'"
        by (simp add: train_loop.simps [of cfg ext wld s])
      from "1.IH" [OF Return False this] s1 show ?thesis by simp
    qed
  qed
qed

lemma train_loop_trace:
  assumes "res_state (train_loop cfg ext wld s) = s'"
    and P: "\<And>e. loop_event (gpu_id s = 0) e \<Longrightarrow> \<not> P e"
  shows "filter P (trace s') = filter P (trace s)"
  using assms
proof (induction cfg ext wld s rule: train_loop.induct)
  case (1 cfg ext wld s)
  have body: "filter P (trace s1) = filter P (trace s)"
    if "res_state (loop_body cfg ext wld s) = s1" for s1
    using that "1.prems"(2) by (rule loop_body_trace)
  show ?case
  proof (cases "loop_body cfg ext wld s")
    case (Raise e s1)
    with "1.prems" have "s' = s1" by (simp add: train_loop.simps)
    with Raise body [of s1] show ?thesis by simp
  next
    case (Return brk s1)
    with loop_body_same [of cfg ext wld s s1] body [of s1]
    have s1: "gpu_id s1 = gpu_id s" "filter P (trace s1) = filter P (trace s)" by simp_all
    show ?thesis
    proof (cases brk)
      case True
      with Return "1.prems" have "s' = s1" by (simp add: train_loop.simps)
      with s1 show ?thesis by simp
    next
      case False
      with Return "1.prems" have "res_state (train_loop cfg ext wld s1) = s'"
        by (simp add: train_loop.simps [of cfg ext wld s])
      from "1.IH" [OF Return False this] "1.prems"(2) s1 show ?thesis by simp
    qed
  qed
qed

text \<open>The loop with a bound on the number of passes: \<open>None\<close> when the bound is used up.\<close>

fun loop_passes ::
  "nat \<Rightarrow> config \<Rightarrow> ('w, 'o) collaborators \<Rightarrow> ('w, 'o) world \<Rightarrow> ('w, 'o) state
     \<Rightarrow> (unit, ('w, 'o) state) result option" where
  "loop_passes 0 cfg ext wld s = None"
| "loop_passes (Suc n) cfg ext wld s =
     (case loop_body cfg ext wld s of
        Raise e s' \<Rightarrow> Some (Raise e s')
      | Return brk s' \<Rightarrow>
          (if brk then Some (Return () s') else loop_passes n cfg ext wld s'))"

lemma train_loop_bounded:
  assumes "nat (max 1 (max_iters cfg - iter_num s)) \<le> n"
  shows "loop_passes n cfg ext wld s = Some (train_loop cfg ext wld s)"
  using assms
proof (induction cfg ext wld s arbitrary: n rule: train_loop.induct)
  case (1 cfg ext wld s)
  from "1.prems" obtain m where n: "n = Suc m" by (cases n) auto
  show ?case
  proof (cases "loop_body cfg ext wld s")
    case (Raise e s1)
    then show ?thesis by (simp add: n train_loop.simps)
  next
    case (Return brk s1)
    show ?thesis
    proof (cases brk)
      case True
      with Return show ?thesis by (simp add: n train_loop.simps)
    next
      case False
      with Return loop_body_Return [of cfg ext wld s brk s1]
      have s1: "iter_num s1 = iter_num s + 1" "iter_num s1 < max_iters cfg"
        by (auto split: if_splits)
      with "1.prems" n have "nat (max 1 (max_iters cfg - iter_num s1)) \<le> m" by auto
      from "1.IH" [OF Return False this] Return False show ?thesis
        by (simp add: n train_loop.simps [of cfg ext wld s])
    qed
  qed
qed

lemma train_loop_exit:
  assumes "train_loop cfg ext wld s = Return u s'"
    and "\<not> (eval_only cfg \<and> iter_num s \<le> 0)"
  shows "iter_num s' = max (iter_num s + 1) (max_iters cfg)
         \<and> length (filter (\<lambda>e. e = OptimizerStep) (trace s'))
             = length (filter (\<lambda>e. e = OptimizerStep) (trace s))
                 + nat (max 1 (max_iters cfg - iter_num s))"
  using assms
proof (induction cfg ext wld s rule: train_loop.induct)
  case (1 cfg ext wld s)
  from "1.prems"(1) obtain brk s1 where body: "loop_body cfg ext wld s = Return brk s1"
    by (auto simp: train_loop.simps [of cfg ext wld s] split: result.splits)
  with loop_body_Return [of cfg ext wld s brk s1] "1.prems"(2)
  have s1: "iter_num s1 = iter_num s + 1" "brk = (max_iters cfg \<le> iter_num s1)"
    "filter (\<lambda>e. e = OptimizerStep) (trace s1)
       = filter (\<lambda>e. e = OptimizerStep) (trace s) @ [OptimizerStep]"
    by (auto split: if_splits)
  show ?case
  proof (cases brk)
    case True
    with body "1.prems"(1) have "s' = s1" by (simp add: train_loop.simps [of cfg ext wld s])
    with s1 True show ?thesis by auto
  next
    case False
    with body "1.prems"(1) have loop: "train_loop cfg ext wld s1 = Return u s'"
      by (simp add: train_loop.simps [of cfg ext wld s])
    have "\<not> (eval_only cfg \<and> iter_num s1 \<le> 0)" using "1.prems"(2) s1 by auto
    from "1.IH" [OF body False loop this] s1 False show ?thesis by auto
  qed
qed

section \<open>A small concrete run\<close>

text \<open>
  A configuration, collaborators and files small enough to run by hand: windows of two
  tokens, batches of two windows, one batch per evaluation, an evaluation at every
  iteration. The loss of the model falls with every optimizer step.
\<close>

definition demo_config :: config where
  "demo_config = default_config\<lparr>eval_interval := 1, eval_iters := 1, batch_size := 2,
     block_size := 2, max_iters := 1, decay_lr := False, compile_model := False\<rparr>"

definition demo_ext :: "(nat, nat) collaborators" where
  "demo_ext =
     \<lparr> GPT = (\<lambda>args. Inr 0), from_pretrained = (\<lambda>name. Inr 0),
       model_block_size = (\<lambda>w. 2), crop_block_size = (\<lambda>w b. w),
       configure_optimizers = (\<lambda>w wd lr b. 0), set_lr = (\<lambda>lr opt. opt),
       forward = (\<lambda>w mode b. Inr (Flt (1 / (1 + real w)))),
       step = (\<lambda>w opt b. (w + 1, opt + 1)),
       generator = (\<lambda>seed k. k + 1) \<rparr>"

definition demo_world :: "(nat, nat) world" where
  "demo_world =
     \<lparr> LOCAL_RANK = None, train_data = [10, 11, 12, 13, 14], val_data = [20, 21, 22, 23],
       ckpt_on_disk = None \<rparr>"

definition demo_state :: "(nat, nat) state" where
  "demo_state =
     \<lparr> gpu_id = 0, ddp = False, iter_num = 0, best_val_loss = Flt 1000000000, model = 0,
       optimizer = 0, training = True, rng_pos = 0, ckpt_file = None,
       trace = [MakeDirs ''out'', ManualSeed 1337, Print MsgScratch] \<rparr>"

lemma demo_startup: "startup demo_config demo_ext demo_world = Inr demo_state"
  by (simp add: startup_def init_model_def topology_events_def rank_of_def is_ddp_def
      demo_config_def default_config_def demo_ext_def demo_world_def demo_state_def
      model_args_def Let_def)

lemma demo_get_batch:
  "get_batch demo_config demo_ext demo_world ''train'' demo_state
     = Return ([[11, 12], [12, 13]], [[12, 13], [13, 14]])
         (demo_state\<lparr>rng_pos := 2, trace := trace demo_state @ [GetBatch ''train'']\<rparr>)"
  by code_simp

section \<open>The windows of a batch\<close>

lemma py_slice_inside:
  assumes "0 \<le> a" and "a \<le> b" and "b \<le> int (length xs)"
  shows "py_slice xs a b = take (nat (b - a)) (drop (nat a) xs)"
  using assms by (simp add: py_slice_def Let_def min_def)

lemma window_inside:
  assumes "0 \<le> a" and "0 \<le> L" and "a + L \<le> int (length data)"
  shows "length (astype_int64 (py_slice data a (a + L))) = nat L"
    and "j < nat L \<Longrightarrow> astype_int64 (py_slice data a (a + L)) ! j = ucast (data ! (nat a + j))"
proof -
  have sl: "py_slice data a (a + L) = take (nat L) (drop (nat a) data)"
    using assms py_slice_inside [of a "a + L" data] by simp
  show "length (astype_int64 (py_slice data a (a + L))) = nat L"
    using assms by (simp add: sl astype_int64_def)
  show "astype_int64 (py_slice data a (a + L)) ! j = ucast (data ! (nat a + j))" if "j < nat L"
  proof -
    have "j < length (take (nat L) (drop (nat a) data))"
      using that assms by simp
    then show ?thesis using that by (simp add: sl astype_int64_def)
  qed
qed

lemma randint_range:
  assumes "randint raw pos high n = Inr ix"
  shows "length ix = nat n \<and> 0 < high \<and> 0 \<le> n \<and> (\<forall>k < length ix. 0 \<le> ix ! k \<and> ix ! k < high)"
proof -
  from assms have h: "0 < high" "0 \<le> n"
    and ix: "ix = map (\<lambda>k. int (raw (pos + k) mod nat high)) [0..<nat n]"
    by (auto simp: randint_def split: if_splits)
  have "0 \<le> ix ! k \<and> ix ! k < high" if "k < length ix" for k
  proof -
    from that ix have "ix ! k = int (raw (pos + k) mod nat high)" by simp
    moreover have "raw (pos + k) mod nat high < nat high" using h by simp
    ultimately show ?thesis using h by linarith
  qed
  with h ix show ?thesis by simp
qed

lemma stack_Inr: "stack rows = Inr r \<Longrightarrow> r = rows"
  by (auto simp: stack_def split: if_splits)

lemma get_batch_at_Inr:
  assumes "get_batch_at cfg data ix = Inr (x, y)"
  shows "x = map (input_window data (block_size cfg)) ix
         \<and> y = map (target_window data (block_size cfg)) ix"
  using assms by (auto simp: get_batch_at_def split: sum.splits dest: stack_Inr)

lemma stack_replicate:
  assumes "0 < n"
  shows "stack (replicate n r) = Inr (replicate n r)"
proof -
  from assms obtain m where "n = Suc m" by (cases n) auto
  then show ?thesis by (simp add: stack_def list_ex_iff)
qed

lemma randint_constant:
  assumes "0 \<le> i" and "i < high" and "0 \<le> n"
  shows "randint (\<lambda>k. nat i) pos high n = Inr (replicate (nat n) i)"
proof -
  have "nat i mod nat high = nat i" using assms by simp
  then have "map (\<lambda>k. int (nat i mod nat high)) [0..<nat n] = replicate (nat n) i"
    using assms(1) by (simp add: map_replicate_const)
  with assms show ?thesis by (simp add: randint_def)
qed

text \<open>
  Claim C5. When \<open>get_batch\<close> returns a batch (and \<open>block_size\<close>, a length, is not
  negative), it drew \<open>batch_size\<close> offsets in the array of the requested split
  (\<open>train_data\<close> for \<open>'train'\<close>, \<open>val_data\<close> otherwise); every offset \<open>i\<close> is a valid
  start, so that the input window \<open>i .. i+L-1\<close> and the target window \<open>i+1 .. i+L\<close>
  lie inside the split; both windows have length \<open>L = block_size\<close>; the target is the
  input shifted by one token. The draw of \<open>get_batch\<close> ranges over all valid offsets:
  for each of them there is a generator with which the same call returns the windows
  that start there.
\<close>

theorem get_batch_windows:
  assumes "get_batch cfg ext wld split s = Return (x, y) s'"
    and "0 \<le> block_size cfg"
    and "data = (if split = ''train'' then train_data wld else val_data wld)"
  shows "(\<exists>ix. length ix = nat (batch_size cfg) \<and> length x = length ix \<and> length y = length ix
           \<and> (\<forall>k < length ix.
                 0 \<le> ix ! k \<and> ix ! k + block_size cfg < int (length data)
                 \<and> length (x ! k) = nat (block_size cfg)
                 \<and> length (y ! k) = nat (block_size cfg)
                 \<and> (\<forall>j < nat (block_size cfg).
                       x ! k ! j = ucast (data ! (nat (ix ! k) + j))
                       \<and> y ! k ! j = ucast (data ! (nat (ix ! k) + j + 1))
                       \<and> (j + 1 < nat (block_size cfg) \<longrightarrow> y ! k ! j = x ! k ! (j + 1)))))
         \<and> (\<forall>i. 0 \<le> i \<and> i + block_size cfg < int (length data) \<longrightarrow>
                (\<exists>g x' y' s''.
                   get_batch cfg (ext\<lparr>generator := g\<rparr>) wld split s = Return (x', y') s''
                   \<and> length x' = nat (batch_size cfg) \<and> length y' = nat (batch_size cfg)
                   \<and> (\<forall>k < nat (batch_size cfg).
                         x' ! k = map ucast (take (nat (block_size cfg)) (drop (nat i) data))
                         \<and> y' ! k
                             = map ucast (take (nat (block_size cfg)) (drop (nat i + 1) data)))))"
proof -
  let ?L = "block_size cfg"
  let ?high = "int (length data) - ?L"
  have data: "split_data wld split = data"
    by (simp add: split_data_def assms(3))
  from assms(1) obtain ix where
    ri: "randint (generator ext (1337 + gpu_id s)) (rng_pos s) ?high (batch_size cfg) = Inr ix"
    and ga: "get_batch_at cfg data ix = Inr (x, y)"
    by (auto simp: get_batch_def data Let_def split: sum.splits)
  from randint_range [OF ri]
  have len: "length ix = nat (batch_size cfg)" and n0: "0 \<le> batch_size cfg"
    and rng: "\<And>k. k < length ix \<Longrightarrow> 0 \<le> ix ! k \<and> ix ! k < ?high" by auto
  from get_batch_at_Inr [OF ga]
  have x: "x = map (input_window data ?L) ix" and y: "y = map (target_window data ?L) ix"
    by simp_all
  from ga have "ix \<noteq> []"
    by (auto simp: get_batch_at_def stack_def split: sum.splits if_splits)
  with len have npos: "0 < nat (batch_size cfg)" by (cases ix) auto
  have win: "0 \<le> ix ! k \<and> ix ! k + ?L < int (length data)
        \<and> length (x ! k) = nat ?L \<and> length (y ! k) = nat ?L
        \<and> (\<forall>j < nat ?L. x ! k ! j = ucast (data ! (nat (ix ! k) + j))
              \<and> y ! k ! j = ucast (data ! (nat (ix ! k) + j + 1))
              \<and> (j + 1 < nat ?L \<longrightarrow> y ! k ! j = x ! k ! (j + 1)))"
    if k: "k < length ix" for k
  proof -
    let ?i = "ix ! k"
    from rng [OF k] have i: "0 \<le> ?i" "?i + ?L < int (length data)" by auto
    have xk: "x ! k = astype_int64 (py_slice data ?i (?i + ?L))"
      using k by (simp add: x input_window_def)
    have yk: "y ! k = astype_int64 (py_slice data (?i + 1) (?i + 1 + ?L))"
      using k by (simp add: y target_window_def)
    have lx: "length (x ! k) = nat ?L"
      unfolding xk using i assms(2) by (intro window_inside(1)) simp_all
    have ly: "length (y ! k) = nat ?L"
      unfolding yk using i assms(2) by (intro window_inside(1)) simp_all
    have ex: "x ! k ! j = ucast (data ! (nat ?i + j))" if "j < nat ?L" for j
      unfolding xk using i assms(2) that by (intro window_inside(2)) simp_all
    have ey: "y ! k ! j = ucast (data ! (nat ?i + j + 1))" if "j < nat ?L" for j
    proof -
      have "y ! k ! j = ucast (data ! (nat (?i + 1) + j))"
        unfolding yk using i assms(2) that by (intro window_inside(2)) simp_all
      moreover have "nat (?i + 1) + j = nat ?i + j + 1" using i by simp
      ultimately show ?thesis by simp
    qed
    have sh: "y ! k ! j = x ! k ! (j + 1)" if "j + 1 < nat ?L" for j
      using ex [of "j + 1"] ey [of j] that by simp
    from i lx ly ex ey sh show ?thesis by blast
  qed
  from len x y win
  have drawn: "\<exists>ix. length ix = nat (batch_size cfg) \<and> length x = length ix \<and> length y = length ix
           \<and> (\<forall>k < length ix.
                 0 \<le> ix ! k \<and> ix ! k + ?L < int (length data)
                 \<and> length (x ! k) = nat ?L \<and> length (y ! k) = nat ?L
                 \<and> (\<forall>j < nat ?L.
                       x ! k ! j = ucast (data ! (nat (ix ! k) + j))
                       \<and> y ! k ! j = ucast (data ! (nat (ix ! k) + j + 1))
                       \<and> (j + 1 < nat ?L \<longrightarrow> y ! k ! j = x ! k ! (j + 1))))"
    by (intro exI [of _ ix]) simp
  have covered: "\<exists>g x' y' s''.
       get_batch cfg (ext\<lparr>generator := g\<rparr>) wld split s = Return (x', y') s''
       \<and> length x' = nat (batch_size cfg) \<and> length y' = nat (batch_size cfg)
       \<and> (\<forall>k < nat (batch_size cfg).
             x' ! k = map ucast (take (nat ?L) (drop (nat i) data))
             \<and> y' ! k = map ucast (take (nat ?L) (drop (nat i + 1) data)))"
    if i: "0 \<le> i \<and> i + ?L < int (length data)" for i
  proof -
    let ?n = "nat (batch_size cfg)"
    let ?xw = "input_window data ?L i" and ?yw = "target_window data ?L i"
    let ?s'' = "(emit (GetBatch split) s)\<lparr>rng_pos := rng_pos s + ?n\<rparr>"
    from i assms(2) have ih: "0 \<le> i" "i < ?high" by auto
    have draw: "randint (\<lambda>k. nat i) (rng_pos s) ?high (batch_size cfg) = Inr (replicate ?n i)"
      using ih n0 by (rule randint_constant)
    have rows: "get_batch_at cfg data (replicate ?n i)
                  = Inr (replicate ?n ?xw, replicate ?n ?yw)"
      using npos by (simp add: get_batch_at_def stack_replicate)
    have call: "get_batch cfg (ext\<lparr>generator := (\<lambda>seed k. nat i)\<rparr>) wld split s
                  = Return (replicate ?n ?xw, replicate ?n ?yw) ?s''"
      using draw rows by (simp add: get_batch_def data Let_def)
    have xw: "?xw = map ucast (take (nat ?L) (drop (nat i) data))"
      using i assms(2) py_slice_inside [of i "i + ?L" data]
      by (simp add: input_window_def astype_int64_def)
    have yw: "?yw = map ucast (take (nat ?L) (drop (nat i + 1) data))"
    proof -
      have "py_slice data (i + 1) (i + 1 + ?L) = take (nat ?L) (drop (nat (i + 1)) data)"
        using i assms(2) py_slice_inside [of "i + 1" "i + 1 + ?L" data] by simp
      moreover have "nat (i + 1) = nat i + 1" using i by (simp add: nat_add_distrib)
      ultimately show ?thesis by (simp add: target_window_def astype_int64_def)
    qed
    from call xw yw show ?thesis
      by (intro exI [of _ "\<lambda>seed k. nat i"] exI [of _ "replicate ?n ?xw"]
          exI [of _ "replicate ?n ?yw"] exI [of _ ?s'']) simp
  qed
  from drawn covered show ?thesis by blast
qed

lemma demo_get_batch_val:
  "get_batch demo_config demo_ext demo_world ''val'' demo_state
     = Return ([[21, 22], [20, 21]], [[22, 23], [21, 22]])
         (demo_state\<lparr>rng_pos := 2, trace := trace demo_state @ [GetBatch ''val'']\<rparr>)"
  by code_simp

theorem get_batch_windows_witness:
  "get_batch demo_config demo_ext demo_world ''train'' demo_state
     = Return ([[11, 12], [12, 13]], [[12, 13], [13, 14]])
         (demo_state\<lparr>rng_pos := 2, trace := trace demo_state @ [GetBatch ''train'']\<rparr>)
   \<and> get_batch demo_config demo_ext demo_world ''val'' demo_state
     = Return ([[21, 22], [20, 21]], [[22, 23], [21, 22]])
         (demo_state\<lparr>rng_pos := 2, trace := trace demo_state @ [GetBatch ''val'']\<rparr>)
   \<and> 0 \<le> block_size demo_config
   \<and> (\<exists>ix :: int list. length ix = 2 \<and> (\<forall>k < length ix. 0 \<le> ix ! k \<and> ix ! k + 2 < 5))
   \<and> (\<exists>ix :: int list. length ix = 2 \<and> (\<forall>k < length ix. 0 \<le> ix ! k \<and> ix ! k + 2 < 4))
   \<and> (\<exists>g x' y' s''.
         get_batch demo_config (demo_ext\<lparr>generator := g\<rparr>) demo_world ''val'' demo_state
           = Return (x', y') s''
         \<and> x' ! 0 = [21, 22] \<and> y' ! 0 = [22, 23] \<and> x' ! 1 = [21, 22] \<and> y' ! 1 = [22, 23])"
proof -
  have bs: "0 \<le> block_size demo_config" "block_size demo_config = 2"
    "batch_size demo_config = 2"
    by (simp_all add: demo_config_def default_config_def)
  have tr: "[10, 11, 12, 13, 14] = (if ''train'' = ''train'' then train_data demo_world
                                    else val_data demo_world)"
    and va: "[20, 21, 22, 23] = (if ''val'' = ''train'' then train_data demo_world
                                 else val_data demo_world)"
    by (simp_all add: demo_world_def)
  from get_batch_windows [OF demo_get_batch bs(1) tr] obtain ix :: "int list" where
    A: "length ix = nat (batch_size demo_config)" and
    B: "\<forall>k < length ix. 0 \<le> ix ! k
          \<and> ix ! k + block_size demo_config < int (length [10, 11, 12, 13, 14 :: token])"
    by blast
  from A B have T: "\<exists>ix :: int list. length ix = 2
      \<and> (\<forall>k < length ix. 0 \<le> ix ! k \<and> ix ! k + 2 < 5)"
    by (intro exI [of _ ix]) (simp add: bs)
  from get_batch_windows [OF demo_get_batch_val bs(1) va] obtain iv :: "int list" where
    C: "length iv = nat (batch_size demo_config)" and
    D: "\<forall>k < length iv. 0 \<le> iv ! k
          \<and> iv ! k + block_size demo_config < int (length [20, 21, 22, 23 :: token])"
    and E: "\<forall>i. 0 \<le> i \<and> i + block_size demo_config < int (length [20, 21, 22, 23 :: token]) \<longrightarrow>
       (\<exists>g x' y' s''.
          get_batch demo_config (demo_ext\<lparr>generator := g\<rparr>) demo_world ''val'' demo_state
            = Return (x', y') s''
          \<and> length x' = nat (batch_size demo_config) \<and> length y' = nat (batch_size demo_config)
          \<and> (\<forall>k < nat (batch_size demo_config).
                x' ! k = map ucast (take (nat (block_size demo_config))
                                      (drop (nat i) [20, 21, 22, 23 :: token]))
                \<and> y' ! k = map ucast (take (nat (block_size demo_config))
                                         (drop (nat i + 1) [20, 21, 22, 23 :: token]))))"
    by blast
  from C D have V: "\<exists>ix :: int list. length ix = 2
      \<and> (\<forall>k < length ix. 0 \<le> ix ! k \<and> ix ! k + 2 < 4)"
    by (intro exI [of _ iv]) (simp add: bs)
  from E [rule_format, of 1] obtain g x' y' s'' where
    call: "get_batch demo_config (demo_ext\<lparr>generator := g\<rparr>) demo_world ''val'' demo_state
             = Return (x', y') s''"
    and rows: "\<forall>k < nat (batch_size demo_config).
                x' ! k = map ucast (take (nat (block_size demo_config))
                                      (drop (nat 1) [20, 21, 22, 23 :: token]))
                \<and> y' ! k = map ucast (take (nat (block_size demo_config))
                                         (drop (nat 1 + 1) [20, 21, 22, 23 :: token]))"
    by (auto simp: bs)
  from rows [rule_format, of 0] rows [rule_format, of 1]
  have "x' ! 0 = [21, 22] \<and> y' ! 0 = [22, 23] \<and> x' ! 1 = [21, 22] \<and> y' ! 1 = [22, 23]"
    by (simp add: bs)
  with call have W: "\<exists>g x' y' s''.
         get_batch demo_config (demo_ext\<lparr>generator := g\<rparr>) demo_world ''val'' demo_state
           = Return (x', y') s''
         \<and> x' ! 0 = [21, 22] \<and> y' ! 0 = [22, 23] \<and> x' ! 1 = [21, 22] \<and> y' ! 1 = [22, 23]"
    by blast
  from demo_get_batch demo_get_batch_val bs(1) T V W show ?thesis by blast
qed

section \<open>The values of the schedule\<close>

text \<open>
  Claim C3, as amended. For a non-negative iteration \<open>i\<close> and \<open>warmup_iters < lr_decay_iters\<close>,
  \<open>get_lr\<close> returns the linear ramp below \<open>warmup_iters\<close>, \<open>min_lr\<close> above
  \<open>lr_decay_iters\<close> and the cosine interpolation in between; it returns the peak rate at
  \<open>warmup_iters\<close> and \<open>min_lr\<close> at \<open>lr_decay_iters\<close> and beyond. At iteration 0 it
  returns 0 when \<open>warmup_iters\<close> is positive, and the peak rate when \<open>warmup_iters\<close> is 0.
\<close>

theorem get_lr_schedule:
  assumes "0 \<le> i" and "warmup_iters cfg < lr_decay_iters cfg"
  shows "get_lr cfg i =
           Inr (if i < warmup_iters cfg
                  then learning_rate cfg * real_of_int i / real_of_int (warmup_iters cfg)
                else if lr_decay_iters cfg < i then min_lr cfg
                else min_lr cfg
                       + (1 / 2) * (1 + cos (pi * (real_of_int (i - warmup_iters cfg)
                                        / real_of_int (lr_decay_iters cfg - warmup_iters cfg))))
                         * (learning_rate cfg - min_lr cfg))
         \<and> (0 < warmup_iters cfg \<longrightarrow> get_lr cfg 0 = Inr 0)
         \<and> (warmup_iters cfg = 0 \<longrightarrow> get_lr cfg 0 = Inr (learning_rate cfg))
         \<and> get_lr cfg (warmup_iters cfg) = Inr (learning_rate cfg)
         \<and> get_lr cfg (lr_decay_iters cfg) = Inr (min_lr cfg)
         \<and> (lr_decay_iters cfg < i \<longrightarrow> get_lr cfg i = Inr (min_lr cfg))"
proof -
  let ?W = "warmup_iters cfg" and ?D = "lr_decay_iters cfg"
  have pos: "0 < real_of_int (?D - ?W)" using assms(2) by simp
  have ratio: "0 \<le> real_of_int (j - ?W) / real_of_int (?D - ?W)
               \<and> real_of_int (j - ?W) / real_of_int (?D - ?W) \<le> 1"
    if "?W \<le> j" and "j \<le> ?D" for j
  proof
    show "0 \<le> real_of_int (j - ?W) / real_of_int (?D - ?W)"
      using that(1) pos by simp
    have "real_of_int (j - ?W) \<le> real_of_int (?D - ?W)" using that(2) by simp
    with pos show "real_of_int (j - ?W) / real_of_int (?D - ?W) \<le> 1" by simp
  qed
  have piecewise: "get_lr cfg i =
           Inr (if i < ?W
                  then learning_rate cfg * real_of_int i / real_of_int ?W
                else if ?D < i then min_lr cfg
                else min_lr cfg
                       + (1 / 2) * (1 + cos (pi * (real_of_int (i - ?W) / real_of_int (?D - ?W))))
                         * (learning_rate cfg - min_lr cfg))"
  proof (cases "i < ?W")
    case True
    with assms(1) have "?W \<noteq> 0" by auto
    with True show ?thesis by (simp add: get_lr_def)
  next
    case False
    show ?thesis
    proof (cases "?D < i")
      case True
      with False show ?thesis by (simp add: get_lr_def)
    next
      case notgt: False
      with False ratio [of i] have "0 \<le> real_of_int (i - ?W) / real_of_int (?D - ?W)"
        "real_of_int (i - ?W) / real_of_int (?D - ?W) \<le> 1" by simp_all
      with False notgt assms(2) show ?thesis
        by (simp add: get_lr_def Let_def)
    qed
  qed
  have at0: "get_lr cfg 0 = Inr 0" if "0 < ?W"
    using that by (simp add: get_lr_def)
  have at0': "get_lr cfg 0 = Inr (learning_rate cfg)" if "?W = 0"
    using that assms(2) by (simp add: get_lr_def Let_def)
  have atW: "get_lr cfg ?W = Inr (learning_rate cfg)"
    using assms(2) by (simp add: get_lr_def Let_def)
  have atD: "get_lr cfg ?D = Inr (min_lr cfg)"
    using assms(2) by (simp add: get_lr_def Let_def)
  have after: "get_lr cfg i = Inr (min_lr cfg)" if "?D < i"
    using that assms(2) by (simp add: get_lr_def)
  from piecewise at0 at0' atW atD after show ?thesis by simp
qed

theorem get_lr_schedule_witness:
  "get_lr default_config 1000 = Inr (1 / 8000)
   \<and> get_lr default_config 0 = Inr 0
   \<and> get_lr default_config 2000 = Inr (1 / 4000)
   \<and> get_lr default_config 320000 = Inr (1 / 100000)"
  using get_lr_schedule [of 1000 default_config]
  by (simp add: default_config_def)

text \<open>
  Claim C3 as stated asks for \<open>get_lr(0) == 0\<close> whenever \<open>lr_decay_iters > warmup_iters\<close>.
  Without warm-up (\<open>warmup_iters = 0\<close>) the first branch is never taken and iteration 0
  already gets the peak rate.
\<close>

theorem get_lr_no_warmup_counterexample:
  "warmup_iters (default_config\<lparr>warmup_iters := 0\<rparr>)
     < lr_decay_iters (default_config\<lparr>warmup_iters := 0\<rparr>)
   \<and> get_lr (default_config\<lparr>warmup_iters := 0\<rparr>) 0 = Inr (1 / 4000)
   \<and> get_lr (default_config\<lparr>warmup_iters := 0\<rparr>) 0 \<noteq> Inr 0"
  by (simp add: get_lr_def default_config_def Let_def)

section \<open>The mode of the model around an evaluation\<close>

definition demo_world_short_val :: "(nat, nat) world" where
  "demo_world_short_val = demo_world\<lparr>val_data := [20]\<rparr>"

definition demo_evaluated :: "(nat, nat) state" where
  "demo_evaluated =
     demo_state\<lparr>training := True, rng_pos := 4,
       trace := trace demo_state
         @ [ModelEval, GetBatch ''train'', Forward False, GetBatch ''val'', Forward False,
            ModelTrain]\<rparr>"

definition demo_eval_raised :: "(nat, nat) state" where
  "demo_eval_raised =
     demo_state\<lparr>training := False, rng_pos := 2,
       trace := trace demo_state
         @ [ModelEval, GetBatch ''train'', Forward False, GetBatch ''val'']\<rparr>"

lemma demo_estimate_loss:
  "estimate_loss demo_config demo_ext demo_world demo_state
     = Return \<lparr>out_train = Flt 1, out_val = Flt 1\<rparr> demo_evaluated"
  by code_simp

lemma demo_estimate_loss_raises:
  "estimate_loss demo_config demo_ext demo_world_short_val demo_state
     = Raise RuntimeError demo_eval_raised"
  by code_simp

text \<open>
  Claim C2, as amended. When \<open>estimate_loss\<close> returns, the model is in training mode
  again. When it raises (a batch cannot be sampled, the forward pass fails, or
  \<open>eval_iters\<close> is negative), the exception leaves the function at once: line 182 is
  not reached and the model stays in evaluation mode.
\<close>

theorem estimate_loss_mode:
  "(estimate_loss cfg ext wld s = Return out s' \<longrightarrow> training s')
   \<and> (estimate_loss cfg ext wld s = Raise e s' \<longrightarrow> \<not> training s')"
  using estimate_loss_Return_trace [of cfg ext wld s out s']
    estimate_loss_Raise_mode [of cfg ext wld s e s']
  by blast

theorem estimate_loss_mode_witness:
  "estimate_loss demo_config demo_ext demo_world demo_state
     = Return \<lparr>out_train = Flt 1, out_val = Flt 1\<rparr> demo_evaluated
   \<and> training demo_evaluated
   \<and> estimate_loss demo_config demo_ext demo_world_short_val demo_state
       = Raise RuntimeError demo_eval_raised
   \<and> \<not> training demo_eval_raised"
  using estimate_loss_mode [THEN conjunct1, THEN mp, OF demo_estimate_loss]
    estimate_loss_mode [THEN conjunct2, THEN mp, OF demo_estimate_loss_raises]
    demo_estimate_loss demo_estimate_loss_raises
  by blast

text \<open>
  Claim C2 as stated fails when the validation split is shorter than a window: the
  training split is evaluated, then \<open>get_batch('val')\<close> raises inside
  \<open>estimate_loss\<close>, and the model, in training mode before the call, is left in
  evaluation mode.
\<close>

theorem estimate_loss_raise_counterexample:
  "training demo_state
   \<and> estimate_loss demo_config demo_ext demo_world_short_val demo_state
       = Raise RuntimeError demo_eval_raised
   \<and> \<not> training demo_eval_raised"
  by code_simp

section \<open>When a checkpoint is written\<close>

text \<open>
  The checkpoints a trace writes; the validation loss an evaluation in state \<open>s\<close>
  gives; the condition of the claim; and the dict of lines 234--240.
\<close>

fun is_save :: "('w, 'o) event \<Rightarrow> bool" where
  "is_save (TorchSave path ck) = True"
| "is_save _ = False"

definition fresh_val_loss ::
  "config \<Rightarrow> ('w, 'o) collaborators \<Rightarrow> ('w, 'o) world \<Rightarrow> ('w, 'o) state \<Rightarrow> pyfloat option" where
  "fresh_val_loss cfg ext wld s =
     (case estimate_loss cfg ext wld s of
        Return out s1 \<Rightarrow> Some (out_val out)
      | Raise e s1 \<Rightarrow> None)"

definition checkpoint_due ::
  "config \<Rightarrow> ('w, 'o) collaborators \<Rightarrow> ('w, 'o) world \<Rightarrow> ('w, 'o) state \<Rightarrow> bool" where
  "checkpoint_due cfg ext wld s \<longleftrightarrow>
     gpu_id s = 0
     \<and> eval_interval cfg \<noteq> 0 \<and> iter_num s mod eval_interval cfg = 0
     \<and> (case fresh_val_loss cfg ext wld s of
           Some v \<Rightarrow> flt_less v (best_val_loss s)
         | None \<Rightarrow> False)
     \<and> 0 < iter_num s"

definition checkpoint_of ::
  "config \<Rightarrow> ('w, 'o) state \<Rightarrow> pyfloat \<Rightarrow> ('w, 'o) checkpoint" where
  "checkpoint_of cfg s v =
     \<lparr> ck_model = model s, ck_optimizer = optimizer s, ck_model_args = model_args cfg,
       ck_iter_num = iter_num s, ck_best_val_loss = v \<rparr>"

lemma eval_phase_checkpoint:
  assumes "res_state (eval_phase cfg ext wld lr s) = s'"
  shows "if checkpoint_due cfg ext wld s
         then \<exists>v. fresh_val_loss cfg ext wld s = Some v
                \<and> filter is_save (trace s')
                    = filter is_save (trace s) @ [TorchSave (ckpt_path cfg) (checkpoint_of cfg s v)]
                \<and> ckpt_file s' = Some (checkpoint_of cfg s v)
                \<and> best_val_loss s' = v
         else filter is_save (trace s') = filter is_save (trace s)
                \<and> ckpt_file s' = ckpt_file s"
proof (cases "eval_interval cfg \<noteq> 0 \<and> iter_num s mod eval_interval cfg = 0 \<and> gpu_id s = 0")
  case False
  from eval_phase_skip [OF this, of ext wld lr] assms have "s' = s" by simp
  with False show ?thesis by (auto simp: checkpoint_due_def)
next
  case True
  have est: "filter is_save (trace s1) = filter is_save (trace s)"
    if "res_state (estimate_loss cfg ext wld s) = s1" for s1
    using that by (rule estimate_loss_trace) simp_all
  show ?thesis
  proof (cases "estimate_loss cfg ext wld s")
    case (Raise e s1)
    with est [of s1] estimate_loss_same [of cfg ext wld s s1] assms True show ?thesis
      by (auto simp: eval_phase_def checkpoint_due_def fresh_val_loss_def same_run_def)
  next
    case (Return out s1)
    with est [of s1] estimate_loss_same [of cfg ext wld s s1]
    have s1: "filter is_save (trace s1) = filter is_save (trace s)" "same_run s s1"
      by simp_all
    have fv: "fresh_val_loss cfg ext wld s = Some (out_val out)"
      using Return by (simp add: fresh_val_loss_def)
    show ?thesis
    proof (cases "flt_less (out_val out) (best_val_loss s) \<and> 0 < iter_num s")
      case due: True
      with True fv have "checkpoint_due cfg ext wld s" by (simp add: checkpoint_due_def)
      moreover from due True Return assms s1
      have "filter is_save (trace s')
              = filter is_save (trace s)
                  @ [TorchSave (ckpt_path cfg) (checkpoint_of cfg s (out_val out))]
            \<and> ckpt_file s' = Some (checkpoint_of cfg s (out_val out))
            \<and> best_val_loss s' = out_val out"
        by (auto simp: eval_phase_def save_checkpoint_def make_checkpoint_def checkpoint_of_def
            emit_def Let_def same_run_def)
      ultimately show ?thesis using fv by simp
    next
      case notdue: False
      with True fv have "\<not> checkpoint_due cfg ext wld s" by (auto simp: checkpoint_due_def)
      moreover from notdue True Return assms s1
      have "filter is_save (trace s') = filter is_save (trace s) \<and> ckpt_file s' = ckpt_file s"
        by (auto simp: eval_phase_def emit_def Let_def same_run_def)
      ultimately show ?thesis by simp
    qed
  qed
qed

text \<open>
  Claim C4. In the checkpoint block (lines 220--241) a checkpoint is written exactly
  when the worker is the primary, the iteration is a multiple of \<open>eval_interval\<close>, the
  validation loss just estimated is below \<open>best_val_loss\<close>, and the iteration is
  positive. The checkpoint written holds the model, the optimizer state, \<open>model_args\<close>,
  the iteration and the new best loss; it goes to the path
  \<open>os.path.join(out_dir, 'ckpt.pt')\<close>, the file \<open>ckpt.pt\<close> of the output directory
  whatever the iteration, and replaces the file there. The rest of the loop body
  writes no checkpoint.
\<close>

theorem checkpoint_written_iff:
  "(let s' = res_state (eval_phase cfg ext wld lr s)
    in if checkpoint_due cfg ext wld s
       then \<exists>v. fresh_val_loss cfg ext wld s = Some v
              \<and> filter is_save (trace s')
                  = filter is_save (trace s)
                      @ [TorchSave
                           (if out_dir cfg = [] then ''ckpt.pt''
                            else if last (out_dir cfg) = CHR ''/'' then out_dir cfg @ ''ckpt.pt''
                            else out_dir cfg @ ''/ckpt.pt'')
                           (checkpoint_of cfg s v)]
              \<and> ckpt_file s' = Some (checkpoint_of cfg s v)
              \<and> best_val_loss s' = v
       else filter is_save (trace s') = filter is_save (trace s)
              \<and> ckpt_file s' = ckpt_file s)
   \<and> filter is_save (trace (res_state (apply_lr cfg ext s))) = filter is_save (trace s)
   \<and> ckpt_file (res_state (apply_lr cfg ext s)) = ckpt_file s
   \<and> filter is_save (trace (res_state (train_phase cfg ext wld s))) = filter is_save (trace s)
   \<and> ckpt_file (res_state (train_phase cfg ext wld s)) = ckpt_file s"
proof -
  have "filter is_save (trace (res_state (train_phase cfg ext wld s))) = filter is_save (trace s)"
  proof (rule train_phase_trace [OF refl])
    fix e :: "('a, 'b) event"
    assume "train_event (gpu_id s = 0) e"
    then show "\<not> is_save e"
      by (cases "(gpu_id s = 0, e)" rule: train_event.cases) simp_all
  qed
  then have main: "(let s' = res_state (eval_phase cfg ext wld lr s)
    in if checkpoint_due cfg ext wld s
       then \<exists>v. fresh_val_loss cfg ext wld s = Some v
              \<and> filter is_save (trace s')
                  = filter is_save (trace s) @ [TorchSave (ckpt_path cfg) (checkpoint_of cfg s v)]
              \<and> ckpt_file s' = Some (checkpoint_of cfg s v)
              \<and> best_val_loss s' = v
       else filter is_save (trace s') = filter is_save (trace s)
              \<and> ckpt_file s' = ckpt_file s)
   \<and> filter is_save (trace (res_state (apply_lr cfg ext s))) = filter is_save (trace s)
   \<and> ckpt_file (res_state (apply_lr cfg ext s)) = ckpt_file s
   \<and> filter is_save (trace (res_state (train_phase cfg ext wld s))) = filter is_save (trace s)
   \<and> ckpt_file (res_state (train_phase cfg ext wld s)) = ckpt_file s"
    using eval_phase_checkpoint [of cfg ext wld lr s, OF refl]
      apply_lr_same [of cfg ext s, OF refl] train_phase_same [of cfg ext wld s, OF refl]
    by (simp add: Let_def)
  have path: "ckpt_path cfg
      = (if out_dir cfg = [] then ''ckpt.pt''
         else if last (out_dir cfg) = CHR ''/'' then out_dir cfg @ ''ckpt.pt''
         else out_dir cfg @ ''/ckpt.pt'')"
    by (simp add: ckpt_path_def path_join_def)
  from main show ?thesis unfolding path .
qed

definition demo_second_pass :: "(nat, nat) state" where
  "demo_second_pass = demo_state\<lparr>iter_num := 1, best_val_loss := Flt 1, model := 1,
     optimizer := 1\<rparr>"

definition demo_config_runs :: config where
  "demo_config_runs = demo_config\<lparr>out_dir := ''runs/a''\<rparr>"

theorem checkpoint_written_iff_witness:
  "checkpoint_due demo_config_runs demo_ext demo_world demo_second_pass
   \<and> filter is_save (trace (res_state
         (eval_phase demo_config_runs demo_ext demo_world (1 / 4000) demo_second_pass)))
       = [TorchSave ''runs/a/ckpt.pt''
            \<lparr> ck_model = 1, ck_optimizer = 1,
              ck_model_args = [(''n_layer'', 12), (''n_head'', 12), (''n_embd'', 768),
                               (''block_size'', 2), (''dropout'', 1 / 10)],
              ck_iter_num = 1, ck_best_val_loss = Flt (1 / 2) \<rparr>]
   \<and> \<not> checkpoint_due demo_config_runs demo_ext demo_world demo_state
   \<and> filter is_save (trace (res_state
         (eval_phase demo_config_runs demo_ext demo_world (1 / 4000) demo_state))) = []"
proof -
  have due: "checkpoint_due demo_config_runs demo_ext demo_world demo_second_pass"
    by code_simp
  have v: "fresh_val_loss demo_config_runs demo_ext demo_world demo_second_pass
             = Some (Flt (1 / 2))"
    by code_simp
  have notdue: "\<not> checkpoint_due demo_config_runs demo_ext demo_world demo_state"
    by code_simp
  have none: "filter is_save (trace demo_second_pass) = []"
    "filter is_save (trace demo_state) = []"
    by code_simp+
  have dir: "out_dir demo_config_runs = ''runs/a''"
    by (simp add: demo_config_runs_def)
  have ck: "checkpoint_of demo_config_runs demo_second_pass (Flt (1 / 2))
      = \<lparr> ck_model = 1, ck_optimizer = 1,
          ck_model_args = [(''n_layer'', 12), (''n_head'', 12), (''n_embd'', 768),
                           (''block_size'', 2), (''dropout'', 1 / 10)],
          ck_iter_num = 1, ck_best_val_loss = Flt (1 / 2) \<rparr>"
    by code_simp
  from checkpoint_written_iff [of demo_config_runs demo_ext demo_world "1 / 4000"
      demo_second_pass]
    checkpoint_written_iff [of demo_config_runs demo_ext demo_world "1 / 4000" demo_state]
    due notdue v none ck dir
  show ?thesis by (simp add: Let_def)
qed

section \<open>Concrete runs through the loop\<close>

text \<open>
  The small run on one worker; the same with \<open>eval_only\<close>; the same with
  \<open>max_iters = 0\<close>; and the worker of rank 1 of a distributed run.
\<close>

definition demo_eval_only :: config where
  "demo_eval_only = demo_config\<lparr>eval_only := True\<rparr>"

definition demo_no_iters :: config where
  "demo_no_iters = demo_config\<lparr>max_iters := 0\<rparr>"

definition demo_world_rank1 :: "(nat, nat) world" where
  "demo_world_rank1 = demo_world\<lparr>LOCAL_RANK := Some 1\<rparr>"

definition demo_state_rank1 :: "(nat, nat) state" where
  "demo_state_rank1 =
     \<lparr> gpu_id = 1, ddp = True, iter_num = 0, best_val_loss = Flt 1000000000, model = 0,
       optimizer = 0, training = True, rng_pos = 0, ckpt_file = None,
       trace = [InitProcessGroup ''nccl'', ManualSeed 1338, Print MsgScratch] \<rparr>"

definition demo_after_eval :: "(nat, nat) state" where
  "demo_after_eval =
     demo_evaluated\<lparr>best_val_loss := Flt 1,
       trace := trace demo_evaluated @ [Print (MsgStep 0 (Flt 1) (Flt 1))]\<rparr>"

definition demo_after_step :: "(nat, nat) state" where
  "demo_after_step =
     demo_after_eval\<lparr>model := 1, optimizer := 1, rng_pos := 6,
       trace := trace demo_after_eval
         @ [GetBatch ''train'', Forward True, ZeroGrad, Backward, OptimizerStep,
            Print (MsgIter 0 (Flt 1))]\<rparr>"

definition demo_finished :: "(nat, nat) state" where
  "demo_finished = demo_after_step\<lparr>iter_num := 1\<rparr>"

lemma demo_apply_lr:
  "apply_lr demo_config demo_ext s = Return (1 / 4000) s"
  "apply_lr demo_eval_only demo_ext s = Return (1 / 4000) s"
  "apply_lr demo_no_iters demo_ext s = Return (1 / 4000) s"
  by (simp_all add: apply_lr_def demo_config_def demo_eval_only_def demo_no_iters_def
      default_config_def)

lemma demo_eval_phase:
  "eval_phase demo_config demo_ext demo_world (1 / 4000) demo_state = Return () demo_after_eval"
  "eval_phase demo_eval_only demo_ext demo_world (1 / 4000) demo_state = Return () demo_after_eval"
  "eval_phase demo_no_iters demo_ext demo_world (1 / 4000) demo_state = Return () demo_after_eval"
  by code_simp+

lemma demo_train_phase:
  "train_phase demo_config demo_ext demo_world demo_after_eval = Return () demo_after_step"
  "train_phase demo_no_iters demo_ext demo_world demo_after_eval = Return () demo_after_step"
  by code_simp+

lemma demo_flags:
  "\<not> eval_only demo_config" "max_iters demo_config = 1"
  "eval_only demo_eval_only" "max_iters demo_eval_only = 1"
  "\<not> eval_only demo_no_iters" "max_iters demo_no_iters = 0"
  "init_from demo_eval_only = ''scratch''" "eval_interval demo_eval_only = 1"
  "eval_interval demo_config = 1" "\<not> wandb_log demo_eval_only"
  "iter_num demo_state = 0" "iter_num demo_after_eval = 0" "iter_num demo_after_step = 0"
  "iter_num demo_state_rank1 = 0" "gpu_id demo_state_rank1 = 1"
  by (simp_all add: demo_config_def demo_eval_only_def demo_no_iters_def default_config_def
      demo_state_def demo_evaluated_def demo_after_eval_def demo_after_step_def
      demo_state_rank1_def)

lemma demo_train_loop:
  "train_loop demo_config demo_ext demo_world demo_state = Return () demo_finished"
  by (subst train_loop.simps)
    (simp add: loop_body_def demo_apply_lr demo_eval_phase demo_train_phase demo_flags
      demo_finished_def)

lemma demo_no_iters_train_loop:
  "train_loop demo_no_iters demo_ext demo_world demo_state = Return () demo_finished"
  by (subst train_loop.simps)
    (simp add: loop_body_def demo_apply_lr demo_eval_phase demo_train_phase demo_flags
      demo_finished_def)

lemma demo_eval_only_train_loop:
  "train_loop demo_eval_only demo_ext demo_world demo_state = Return () demo_after_eval"
  by (subst train_loop.simps)
    (simp add: loop_body_def demo_apply_lr demo_eval_phase demo_flags)

lemma demo_rank1_train_loop:
  "train_loop demo_eval_only demo_ext demo_world_rank1 demo_state_rank1
     = Return () demo_state_rank1"
  by (subst train_loop.simps)
    (simp add: loop_body_def demo_apply_lr eval_phase_def demo_flags)

lemma demo_startups:
  "startup demo_eval_only demo_ext demo_world = Inr demo_state"
  "startup demo_no_iters demo_ext demo_world = Inr demo_state"
  "startup demo_eval_only demo_ext demo_world_rank1 = Inr demo_state_rank1"
  by (simp_all add: startup_def init_model_def topology_events_def rank_of_def is_ddp_def
      demo_config_def demo_eval_only_def demo_no_iters_def default_config_def demo_ext_def
      demo_world_def demo_world_rank1_def demo_state_def demo_state_rank1_def
      model_args_def Let_def)

lemma demo_ddp:
  "\<not> ddp demo_finished" "\<not> ddp demo_after_eval" "ddp demo_state_rank1"
  by (simp_all add: demo_finished_def demo_after_step_def demo_after_eval_def
      demo_evaluated_def demo_state_def demo_state_rank1_def)

lemma demo_runs:
  "run_script demo_config demo_ext demo_world
     = Inl (AssertionError, trace demo_finished @ [DestroyProcessGroup])"
  "run_script demo_no_iters demo_ext demo_world
     = Inl (AssertionError, trace demo_finished @ [DestroyProcessGroup])"
  "run_script demo_eval_only demo_ext demo_world
     = Inl (AssertionError, trace demo_after_eval @ [DestroyProcessGroup])"
  "run_script demo_eval_only demo_ext demo_world_rank1
     = Inr (emit DestroyProcessGroup demo_state_rank1)"
  by (simp_all add: run_script_def destroy_process_group_def emit_def demo_ddp
      demo_startup demo_startups demo_train_loop
      demo_no_iters_train_loop demo_eval_only_train_loop demo_rank1_train_loop)

definition demo_rank1_finished :: "(nat, nat) state" where
  "demo_rank1_finished =
     demo_state_rank1\<lparr>iter_num := 1, model := 1, optimizer := 1, rng_pos := 2,
       trace := trace demo_state_rank1
         @ [GetBatch ''train'', Forward True, ZeroGrad, Backward, OptimizerStep]\<rparr>"

lemma demo_rank1_train_phase:
  "train_phase demo_config demo_ext demo_world_rank1 demo_state_rank1
     = Return () (demo_rank1_finished\<lparr>iter_num := 0\<rparr>)"
  by code_simp

lemma demo_rank1_full_loop:
  "train_loop demo_config demo_ext demo_world_rank1 demo_state_rank1
     = Return () demo_rank1_finished"
  by (subst train_loop.simps)
    (simp add: loop_body_def demo_apply_lr eval_phase_def demo_rank1_train_phase demo_flags
      demo_rank1_finished_def)

lemma demo_rank1_startup:
  "startup demo_config demo_ext demo_world_rank1 = Inr demo_state_rank1"
  by (simp add: startup_def init_model_def topology_events_def rank_of_def is_ddp_def
      demo_config_def default_config_def demo_ext_def
      demo_world_def demo_world_rank1_def demo_state_rank1_def
      model_args_def Let_def)

lemma demo_rank1_run:
  "run_script demo_config demo_ext demo_world_rank1
     = Inr (emit DestroyProcessGroup demo_rank1_finished)"
  by (simp add: run_script_def destroy_process_group_def demo_rank1_startup
      demo_rank1_full_loop demo_rank1_finished_def demo_ddp)

lemma demo_rank1: "rank_of demo_world_rank1 = 1" "is_ddp demo_world_rank1"
  by (simp_all add: rank_of_def is_ddp_def demo_world_rank1_def demo_world_def)

lemma demo_rank0: "rank_of demo_world = 0" "\<not> is_ddp demo_world"
  by (simp_all add: rank_of_def is_ddp_def demo_world_def)

section \<open>Effects of the primary worker only\<close>

text \<open>
  The effects start-up can have, and the effects the claim reserves for the primary
  worker: directory creation, checkpoint writes, wandb calls and the two log lines of
  the loop.
\<close>

fun startup_event :: "('w, 'o) event \<Rightarrow> bool" where
  "startup_event (InitProcessGroup b) = True"
| "startup_event (MakeDirs d) = True"
| "startup_event (ManualSeed n) = True"
| "startup_event (Print MsgScratch) = True"
| "startup_event (Print (MsgResume d)) = True"
| "startup_event (Print (MsgPretrained n)) = True"
| "startup_event (Print MsgCompiling) = True"
| "startup_event (TorchLoad p) = True"
| "startup_event (WandbInit p e n) = True"
| "startup_event _ = False"

fun primary_effect :: "('w, 'o) event \<Rightarrow> bool" where
  "primary_effect (MakeDirs d) = True"
| "primary_effect (TorchSave p ck) = True"
| "primary_effect (WandbInit p e n) = True"
| "primary_effect (WandbLog i lt lv lr) = True"
| "primary_effect (Print (MsgStep i lt lv)) = True"
| "primary_effect (Print (MsgIter i l)) = True"
| "primary_effect _ = False"

lemma filter_empty_class:
  assumes "list_all Q xs" and "\<And>e. Q e \<Longrightarrow> \<not> P e"
  shows "filter P xs = []"
  using assms by (induction xs) auto

lemma init_model_trace:
  "case init_model cfg ext wld tr of
     Inl (e, tr') \<Rightarrow> \<exists>evs. tr' = tr @ evs \<and> list_all startup_event evs
                        \<and> filter primary_effect evs = []
   | Inr (r, tr') \<Rightarrow> \<exists>evs. tr' = tr @ evs \<and> list_all startup_event evs
                        \<and> filter primary_effect evs = []"
  by (auto simp: init_model_def Let_def split: sum.splits option.splits)

lemma startup_events:
  "list_all startup_event (run_trace (startup cfg ext wld))"
proof -
  have t: "list_all startup_event (topology_events cfg wld)"
    by (simp add: topology_events_def)
  show ?thesis
  proof (cases "init_model cfg ext wld (topology_events cfg wld)")
    case (Inl err)
    with init_model_trace [where cfg = cfg and ext = ext and wld = wld and tr = "topology_events cfg wld"] t show ?thesis
      by (cases err) (auto simp: startup_def run_trace_def)
  next
    case (Inr r)
    obtain m it best ck tr1 where r: "r = ((m, it, best, ck), tr1)"
      by (cases r) auto
    with Inr init_model_trace [where cfg = cfg and ext = ext and wld = wld and tr = "topology_events cfg wld"] t show ?thesis
      by (auto simp: startup_def run_trace_def Let_def)
  qed
qed

lemma startup_nonprimary:
  assumes "rank_of wld \<noteq> 0"
  shows "filter primary_effect (run_trace (startup cfg ext wld)) = []"
proof -
  have t: "filter primary_effect (topology_events cfg wld) = []"
    using assms by (simp add: topology_events_def)
  show ?thesis
  proof (cases "init_model cfg ext wld (topology_events cfg wld)")
    case (Inl err)
    with init_model_trace [where cfg = cfg and ext = ext and wld = wld and tr = "topology_events cfg wld"] t show ?thesis
      by (cases err) (auto simp: startup_def run_trace_def)
  next
    case (Inr r)
    obtain m it best ck tr1 where r: "r = ((m, it, best, ck), tr1)"
      by (cases r) auto
    with Inr init_model_trace [where cfg = cfg and ext = ext and wld = wld and tr = "topology_events cfg wld"] t assms show ?thesis
      by (auto simp: startup_def run_trace_def Let_def)
  qed
qed

lemma startup_state:
  assumes "startup cfg ext wld = Inr s0"
  shows "gpu_id s0 = rank_of wld \<and> ddp s0 = is_ddp wld \<and> training s0
         \<and> ckpt_file s0 = ckpt_on_disk wld"
  using assms
  by (auto simp: startup_def Let_def split: sum.splits prod.splits)

lemma startup_scratch:
  assumes "startup cfg ext wld = Inr s0" and "init_from cfg = ''scratch''"
  shows "iter_num s0 = 0 \<and> best_val_loss s0 = Flt 1000000000"
  using assms
  by (auto simp: startup_def init_model_def Let_def split: sum.splits prod.splits)

lemma loop_event_nonprimary: "loop_event False e \<Longrightarrow> \<not> primary_effect e"
  by (cases "(False, e)" rule: loop_event.cases) simp_all

text \<open>
  Claim C1, as amended. A worker whose rank is not 0 never creates the output
  directory, never writes a checkpoint, never calls \<open>wandb.init\<close> or \<open>wandb.log\<close>,
  and never prints the evaluation line or the iteration line of the training loop,
  at any point of the run and whether the run ends normally or with an exception.
  (The start-up messages are printed by every worker.)
\<close>

theorem nonprimary_effects:
  assumes "rank_of wld \<noteq> 0"
  shows "filter primary_effect (run_trace (run_script cfg ext wld)) = []"
proof (cases "startup cfg ext wld")
  case (Inl err)
  with startup_nonprimary [OF assms, of cfg ext] show ?thesis
    by (simp add: run_script_def)
next
  case (Inr s0)
  with startup_nonprimary [OF assms, of cfg ext] startup_state [OF Inr] assms
  have s0: "filter primary_effect (trace s0) = []" "gpu_id s0 \<noteq> 0"
    by (simp_all add: run_trace_def)
  have loop: "filter primary_effect (trace s') = []"
    if "res_state (train_loop cfg ext wld s0) = s'" for s'
  proof -
    have "filter primary_effect (trace s') = filter primary_effect (trace s0)"
      using that
    proof (rule train_loop_trace)
      fix e :: "('a, 'b) event"
      assume "loop_event (gpu_id s0 = 0) e"
      with s0(2) show "\<not> primary_effect e" by (simp add: loop_event_nonprimary)
    qed
    with s0 show ?thesis by simp
  qed
  show ?thesis
  proof (cases "train_loop cfg ext wld s0")
    case (Raise e s')
    with Inr loop [of s'] show ?thesis by (simp add: run_script_def run_trace_def)
  next
    case (Return u s')
    with Inr loop [of s'] show ?thesis
      by (simp add: run_script_def run_trace_def destroy_process_group_def emit_def Let_def)
  qed
qed

theorem nonprimary_effects_witness:
  "rank_of demo_world_rank1 \<noteq> 0
   \<and> run_script demo_config demo_ext demo_world_rank1
       = Inr (emit DestroyProcessGroup demo_rank1_finished)
   \<and> filter primary_effect (trace (emit DestroyProcessGroup demo_rank1_finished)) = []"
proof -
  have r: "rank_of demo_world_rank1 \<noteq> 0" by (simp add: demo_rank1)
  from nonprimary_effects [OF r, of demo_config demo_ext] demo_rank1_run r
  show ?thesis by (simp add: run_trace_def)
qed

text \<open>
  Claim C1 as stated fails for console output: the messages of lines 130, 134, 147
  and 162 are printed by every worker. Here the worker of rank 1 prints
  ``Initializing a new model from scratch''.
\<close>

theorem nonprimary_prints_counterexample:
  "rank_of demo_world_rank1 = 1
   \<and> run_trace (run_script demo_config demo_ext demo_world_rank1)
       = [InitProcessGroup ''nccl'', ManualSeed 1338, Print MsgScratch, GetBatch ''train'',
          Forward True, ZeroGrad, Backward, OptimizerStep, DestroyProcessGroup]"
  by (simp add: demo_rank1 demo_rank1_run run_trace_def emit_def demo_rank1_finished_def
      demo_state_rank1_def)

section \<open>The eval-only run\<close>

text \<open>
  The effects of the training path (a forward pass in training mode, \<open>zero_grad\<close>,
  \<open>backward\<close>, \<open>step\<close>), and the effects of the one evaluation of an eval-only run.
\<close>

fun training_step :: "('w, 'o) event \<Rightarrow> bool" where
  "training_step (Forward mode) = mode"
| "training_step ZeroGrad = True"
| "training_step Backward = True"
| "training_step OptimizerStep = True"
| "training_step _ = False"

definition evaluation_pass ::
  "config \<Rightarrow> real \<Rightarrow> loss_out \<Rightarrow> ('w, 'o) event list" where
  "evaluation_pass cfg lr out =
     [ModelEval]
     @ concat (replicate (nat (eval_iters cfg)) [GetBatch ''train'', Forward False])
     @ concat (replicate (nat (eval_iters cfg)) [GetBatch ''val'', Forward False])
     @ [ModelTrain, Print (MsgStep 0 (out_train out) (out_val out))]
     @ (if wandb_log cfg then [WandbLog 0 (out_train out) (out_val out) lr] else [])"

lemma evaluation_pass_filters:
  "filter (\<lambda>e. e = ModelEval) (evaluation_pass cfg lr out) = [ModelEval]"
  "filter is_save (evaluation_pass cfg lr out) = []"
  "filter training_step (evaluation_pass cfg lr out) = []"
  by (simp_all add: evaluation_pass_def filter_concat)

lemma get_lr_at_zero:
  assumes "\<not> (warmup_iters cfg = 0 \<and> lr_decay_iters cfg = 0)"
  shows "\<exists>lr. get_lr cfg 0 = Inr lr"
proof (cases "0 < warmup_iters cfg \<or> lr_decay_iters cfg < 0")
  case True
  then show ?thesis by (auto simp: get_lr_def)
next
  case False
  with assms have w: "warmup_iters cfg \<le> 0" "0 \<le> lr_decay_iters cfg"
    "warmup_iters cfg < lr_decay_iters cfg" by auto
  then have pos: "0 < real_of_int (lr_decay_iters cfg - warmup_iters cfg)" by simp
  have ratio: "0 \<le> real_of_int (j - warmup_iters cfg)
                     / real_of_int (lr_decay_iters cfg - warmup_iters cfg)
               \<and> real_of_int (j - warmup_iters cfg)
                     / real_of_int (lr_decay_iters cfg - warmup_iters cfg) \<le> 1"
    if "warmup_iters cfg \<le> j" and "j \<le> lr_decay_iters cfg" for j
  proof
    show "0 \<le> real_of_int (j - warmup_iters cfg)
                / real_of_int (lr_decay_iters cfg - warmup_iters cfg)"
      using that(1) pos by simp
    have "real_of_int (j - warmup_iters cfg)
            \<le> real_of_int (lr_decay_iters cfg - warmup_iters cfg)"
      using that(2) by simp
    with pos show "real_of_int (j - warmup_iters cfg)
                     / real_of_int (lr_decay_iters cfg - warmup_iters cfg) \<le> 1"
      by simp
  qed
  from ratio [of 0] w show ?thesis by (simp add: get_lr_def Let_def)
qed

lemma apply_lr_at_zero:
  assumes "iter_num s = 0"
    and "\<not> (decay_lr cfg \<and> warmup_iters cfg = 0 \<and> lr_decay_iters cfg = 0)"
  shows "\<exists>lr. apply_lr cfg ext s = Return lr (res_state (apply_lr cfg ext s))"
proof (cases "decay_lr cfg")
  case False
  then show ?thesis by (simp add: apply_lr_def)
next
  case True
  with assms(2) get_lr_at_zero [of cfg] obtain lr where "get_lr cfg 0 = Inr lr" by auto
  with True assms(1) show ?thesis by (simp add: apply_lr_def)
qed

text \<open>
  Claim C7, as amended. With \<open>eval_only\<close>, initialisation from scratch, a non-zero
  \<open>eval_interval\<close> and a schedule defined at iteration 0 (not decay with
  \<open>warmup_iters = lr_decay_iters = 0\<close>), when start-up does not raise: the primary
  worker, if its evaluation completes, performs exactly that one evaluation, and a
  worker of another rank performs none; either way the run writes no checkpoint, takes
  no step of the training path, leaves the loop at once at iteration 0 and goes to the
  teardown call, its last effect. That call ends a distributed run normally and a
  non-distributed run with an exception.
\<close>

theorem eval_only_run:
  assumes "eval_only cfg" and "init_from cfg = ''scratch''" and "eval_interval cfg \<noteq> 0"
    and "\<not> (decay_lr cfg \<and> warmup_iters cfg = 0 \<and> lr_decay_iters cfg = 0)"
    and "startup cfg ext wld = Inr s0"
    and "rank_of wld = 0 \<Longrightarrow>
           estimate_loss cfg ext wld (res_state (apply_lr cfg ext s0)) = Return out s2"
  shows "\<exists>lr s3. train_loop cfg ext wld s0 = Return () s3
           \<and> iter_num s3 = 0 \<and> model s3 = model s0 \<and> ckpt_file s3 = ckpt_on_disk wld
           \<and> run_script cfg ext wld
               = (if is_ddp wld then Inr (emit DestroyProcessGroup s3)
                  else Inl (AssertionError, trace s3 @ [DestroyProcessGroup]))
           \<and> run_trace (run_script cfg ext wld)
               = trace s0
                   @ (if rank_of wld = 0 then evaluation_pass cfg lr out else [])
                   @ [DestroyProcessGroup]
           \<and> filter (\<lambda>e. e = ModelEval) (run_trace (run_script cfg ext wld))
               = (if rank_of wld = 0 then [ModelEval] else [])
           \<and> filter is_save (run_trace (run_script cfg ext wld)) = []
           \<and> filter training_step (run_trace (run_script cfg ext wld)) = []"
proof -
  from startup_state [OF assms(5)] startup_scratch [OF assms(5,2)]
  have s0: "gpu_id s0 = rank_of wld" "ckpt_file s0 = ckpt_on_disk wld" "iter_num s0 = 0"
    "ddp s0 = is_ddp wld"
    by simp_all
  from apply_lr_at_zero [OF s0(3) assms(4), of ext] obtain lr s1 where
    lr: "apply_lr cfg ext s0 = Return lr s1" by blast
  then have s1eq: "res_state (apply_lr cfg ext s0) = s1" by simp
  from apply_lr_same [OF s1eq] s0
  have s1: "gpu_id s1 = rank_of wld" "ckpt_file s1 = ckpt_on_disk wld" "iter_num s1 = 0"
    "model s1 = model s0" "trace s1 = trace s0" "ddp s1 = is_ddp wld"
    by simp_all
  have st: "filter P (trace s0) = []" if "\<And>e. startup_event e \<Longrightarrow> \<not> P e" for P
    using startup_events [of cfg ext wld] assms(5) that
    by (intro filter_empty_class [of startup_event]) (simp_all add: run_trace_def)
  have st1: "filter (\<lambda>e. e = ModelEval) (trace s0) = []"
    by (rule st) (auto elim: startup_event.elims)
  have st2: "filter is_save (trace s0) = []"
    by (rule st) (auto elim: startup_event.elims)
  have st3: "filter training_step (trace s0) = []"
    by (rule st) (auto elim: startup_event.elims)
  obtain s3 where ev: "eval_phase cfg ext wld lr s1 = Return () s3"
    and s3: "iter_num s3 = 0" "model s3 = model s0" "ckpt_file s3 = ckpt_on_disk wld"
      "trace s3 = trace s0 @ (if rank_of wld = 0 then evaluation_pass cfg lr out else [])"
      "ddp s3 = is_ddp wld"
  proof (cases "rank_of wld = 0")
    case False
    with s1 assms(3) have "eval_phase cfg ext wld lr s1 = Return () s1"
      by (simp add: eval_phase_def)
    with s1 False that show ?thesis by simp
  next
    case True
    from assms(6) [OF True] s1eq have est: "estimate_loss cfg ext wld s1 = Return out s2"
      by simp
    from estimate_loss_same [of cfg ext wld s1 s2] est s1
    have s2: "iter_num s2 = 0" "model s2 = model s0" "ckpt_file s2 = ckpt_on_disk wld"
      "ddp s2 = is_ddp wld"
      by (simp_all add: same_run_def)
    from estimate_loss_Return_trace [OF est] s1
    have t2: "trace s2 = trace s0 @ [ModelEval]
           @ concat (replicate (nat (eval_iters cfg)) [GetBatch ''train'', Forward False])
           @ concat (replicate (nat (eval_iters cfg)) [GetBatch ''val'', Forward False])
           @ [ModelTrain]" by simp
    let ?s3 = "res_state (eval_phase cfg ext wld lr s1)"
    have "eval_phase cfg ext wld lr s1 = Return () ?s3"
      using True s1 assms(3) est s2
      by (simp add: eval_phase_def Let_def emit_def)
    moreover have "iter_num ?s3 = 0 \<and> model ?s3 = model s0 \<and> ckpt_file ?s3 = ckpt_on_disk wld
        \<and> trace ?s3 = trace s0 @ evaluation_pass cfg lr out \<and> ddp ?s3 = is_ddp wld"
      using True s1 assms(3) est s2 t2
      by (simp add: eval_phase_def Let_def emit_def evaluation_pass_def)
    ultimately show ?thesis using that True by simp
  qed
  have "loop_body cfg ext wld s0 = Return True s3"
    using assms(1) lr ev s3(1) by (simp add: loop_body_def)
  then have loop: "train_loop cfg ext wld s0 = Return () s3"
    by (subst train_loop.simps) simp
  with assms(5) s3(5)
  have run: "run_script cfg ext wld
               = (if is_ddp wld then Inr (emit DestroyProcessGroup s3)
                  else Inl (AssertionError, trace s3 @ [DestroyProcessGroup]))"
    by (simp add: run_script_def destroy_process_group_def emit_def)
  then have tr: "run_trace (run_script cfg ext wld)
               = trace s0
                   @ (if rank_of wld = 0 then evaluation_pass cfg lr out else [])
                   @ [DestroyProcessGroup]"
    using s3(4) by (simp add: run_trace_def emit_def)
  have f1: "filter (\<lambda>e. e = ModelEval) (run_trace (run_script cfg ext wld))
              = (if rank_of wld = 0 then [ModelEval] else [])"
    unfolding tr using st1 by (simp add: evaluation_pass_filters)
  have f2: "filter is_save (run_trace (run_script cfg ext wld)) = []"
    unfolding tr using st2 by (simp add: evaluation_pass_filters)
  have f3: "filter training_step (run_trace (run_script cfg ext wld)) = []"
    unfolding tr using st3 by (simp add: evaluation_pass_filters)
  from loop s3(1,2,3) run tr f1 f2 f3 show ?thesis by blast
qed

lemma demo_eval_only_estimate:
  "estimate_loss demo_eval_only demo_ext demo_world demo_state
     = Return \<lparr>out_train = Flt 1, out_val = Flt 1\<rparr> demo_evaluated"
  by code_simp

theorem eval_only_run_witness:
  "rank_of demo_world = 0
   \<and> run_script demo_eval_only demo_ext demo_world
       = Inl (AssertionError, trace demo_after_eval @ [DestroyProcessGroup])
   \<and> run_trace (run_script demo_eval_only demo_ext demo_world)
       = [MakeDirs ''out'', ManualSeed 1337, Print MsgScratch, ModelEval, GetBatch ''train'',
          Forward False, GetBatch ''val'', Forward False, ModelTrain,
          Print (MsgStep 0 (Flt 1) (Flt 1)), DestroyProcessGroup]
   \<and> filter (\<lambda>e. e = ModelEval) (run_trace (run_script demo_eval_only demo_ext demo_world))
       = [ModelEval]
   \<and> filter is_save (run_trace (run_script demo_eval_only demo_ext demo_world)) = []
   \<and> filter training_step (run_trace (run_script demo_eval_only demo_ext demo_world)) = []"
proof -
  have ne: "eval_interval demo_eval_only \<noteq> 0" by (simp add: demo_flags)
  have nd: "\<not> (decay_lr demo_eval_only \<and> warmup_iters demo_eval_only = 0
                \<and> lr_decay_iters demo_eval_only = 0)"
    by (simp add: demo_eval_only_def demo_config_def default_config_def)
  have est: "estimate_loss demo_eval_only demo_ext demo_world
               (res_state (apply_lr demo_eval_only demo_ext demo_state))
             = Return \<lparr>out_train = Flt 1, out_val = Flt 1\<rparr> demo_evaluated"
    by (simp add: demo_apply_lr demo_eval_only_estimate)
  from eval_only_run [OF demo_flags(3) demo_flags(7) ne nd demo_startups(1) est]
  have "filter (\<lambda>e. e = ModelEval) (run_trace (run_script demo_eval_only demo_ext demo_world))
          = (if rank_of demo_world = 0 then [ModelEval] else [])"
    and "filter is_save (run_trace (run_script demo_eval_only demo_ext demo_world)) = []"
    and "filter training_step (run_trace (run_script demo_eval_only demo_ext demo_world)) = []"
    by blast+
  moreover have "run_trace (run_script demo_eval_only demo_ext demo_world)
       = [MakeDirs ''out'', ManualSeed 1337, Print MsgScratch, ModelEval, GetBatch ''train'',
          Forward False, GetBatch ''val'', Forward False, ModelTrain,
          Print (MsgStep 0 (Flt 1) (Flt 1)), DestroyProcessGroup]"
    by (simp add: demo_runs run_trace_def demo_after_eval_def demo_evaluated_def demo_state_def)
  ultimately show ?thesis using demo_runs(3) demo_rank0(1) by simp
qed

text \<open>
  Claim C7 as stated fails on a worker that is not the primary: the evaluation of
  line 221 is behind \<open>gpu_id == 0\<close>, so the worker of rank 1 leaves the loop without
  any evaluation pass.
\<close>

theorem eval_only_nonprimary_counterexample:
  "eval_only demo_eval_only \<and> init_from demo_eval_only = ''scratch''
   \<and> rank_of demo_world_rank1 = 1
   \<and> run_script demo_eval_only demo_ext demo_world_rank1
       = Inr (emit DestroyProcessGroup demo_state_rank1)
   \<and> trace (emit DestroyProcessGroup demo_state_rank1)
       = [InitProcessGroup ''nccl'', ManualSeed 1338, Print MsgScratch, DestroyProcessGroup]
   \<and> filter (\<lambda>e. e = ModelEval) (trace (emit DestroyProcessGroup demo_state_rank1)) = []"
  by (simp add: demo_flags demo_rank1 demo_runs emit_def demo_state_rank1_def)

section \<open>The end of the loop\<close>

text \<open>
  Claim C9, as amended. The loop ends within \<open>max 1 (max_iters - iter_num)\<close> passes
  (with an exception or a \<open>break\<close>). When it ends by \<open>break\<close> and the eval-only exit
  does not apply, it ends at the first increment that makes \<open>iter_num >= max_iters\<close>:
  the final \<open>iter_num\<close> is \<open>max (iter_num + 1) max_iters\<close>, which is \<open>max_iters\<close> for a
  run started at 0 with \<open>max_iters > 0\<close>, and the number of training steps taken is
  \<open>max 1 (max_iters - iter_num)\<close>. The first pass takes its training step before
  \<open>max_iters\<close> is looked at.
\<close>

theorem loop_exit:
  "loop_passes (nat (max 1 (max_iters cfg - iter_num s))) cfg ext wld s
     = Some (train_loop cfg ext wld s)
   \<and> (train_loop cfg ext wld s = Return u s' \<and> \<not> (eval_only cfg \<and> iter_num s \<le> 0) \<longrightarrow>
        iter_num s' = max (iter_num s + 1) (max_iters cfg)
        \<and> max_iters cfg \<le> iter_num s'
        \<and> length (filter (\<lambda>e. e = OptimizerStep) (trace s'))
            = length (filter (\<lambda>e. e = OptimizerStep) (trace s))
                + nat (max 1 (max_iters cfg - iter_num s))
        \<and> (iter_num s = 0 \<and> 0 < max_iters cfg \<longrightarrow> iter_num s' = max_iters cfg))"
  using train_loop_bounded [of cfg s "nat (max 1 (max_iters cfg - iter_num s))" ext wld]
    train_loop_exit [of cfg ext wld s u s']
  by auto

theorem loop_exit_witness:
  "loop_passes 1 demo_config demo_ext demo_world demo_state = Some (Return () demo_finished)
   \<and> train_loop demo_config demo_ext demo_world demo_state = Return () demo_finished
   \<and> \<not> eval_only demo_config \<and> iter_num demo_state = 0 \<and> 0 < max_iters demo_config
   \<and> iter_num demo_finished = max_iters demo_config
   \<and> length (filter (\<lambda>e. e = OptimizerStep) (trace demo_finished))
       = length (filter (\<lambda>e. e = OptimizerStep) (trace demo_state)) + 1"
  using loop_exit [of demo_config demo_state demo_ext demo_world "()" demo_finished]
  by (simp add: demo_train_loop demo_flags)

text \<open>
  Claim C9 as stated says that training steps are executed only while
  \<open>iter_num < max_iters\<close>. The test of line 263 stands at the end of the body: with
  \<open>max_iters = 0\<close> the run takes one training step at iteration 0 and ends with
  \<open>iter_num = 1\<close>.
\<close>

theorem step_at_max_iters_counterexample:
  "\<not> eval_only demo_no_iters
   \<and> train_loop demo_no_iters demo_ext demo_world demo_state = Return () demo_finished
   \<and> \<not> iter_num demo_state < max_iters demo_no_iters
   \<and> filter (\<lambda>e. e = OptimizerStep) (trace demo_state) = []
   \<and> filter (\<lambda>e. e = OptimizerStep) (trace demo_finished) = [OptimizerStep]
   \<and> iter_num demo_finished = 1 \<and> max_iters demo_no_iters = 0"
  using demo_no_iters_train_loop
  by (simp add: demo_flags demo_finished_def demo_after_step_def
      demo_after_eval_def demo_evaluated_def demo_state_def)

section \<open>Teardown of the process group\<close>

fun is_init_group :: "('w, 'o) event \<Rightarrow> bool" where
  "is_init_group (InitProcessGroup b) = True"
| "is_init_group _ = False"

lemma startup_init_group:
  "filter is_init_group (run_trace (startup cfg ext wld))
     = (if is_ddp wld then [InitProcessGroup (backend cfg)] else [])"
proof -
  have t: "filter is_init_group (topology_events cfg wld)
             = (if is_ddp wld then [InitProcessGroup (backend cfg)] else [])"
    by (simp add: topology_events_def)
  have i: "case init_model cfg ext wld tr of
     Inl (e, tr') \<Rightarrow> filter is_init_group tr' = filter is_init_group tr
   | Inr (r, tr') \<Rightarrow> filter is_init_group tr' = filter is_init_group tr" for tr
    by (auto simp: init_model_def Let_def split: sum.splits option.splits)
  show ?thesis
  proof (cases "init_model cfg ext wld (topology_events cfg wld)")
    case (Inl err)
    with i [of "topology_events cfg wld"] t show ?thesis
      by (cases err) (auto simp: startup_def run_trace_def)
  next
    case (Inr r)
    obtain m it best ck tr1 where r: "r = ((m, it, best, ck), tr1)"
      by (cases r) auto
    with Inr i [of "topology_events cfg wld"] t show ?thesis
      by (auto simp: startup_def run_trace_def Let_def)
  qed
qed

lemma train_loop_return_ddp:
  assumes "startup cfg ext wld = Inr s0" and "train_loop cfg ext wld s0 = Return u s1"
  shows "ddp s1 = is_ddp wld"
  using startup_state [OF assms(1)] train_loop_same [of cfg ext wld s0 s1] assms(2) by simp

text \<open>
  Claim C10. Whenever start-up succeeds and the loop ends by a \<open>break\<close> (line 243 or
  line 264), the script goes on to line 266: the teardown call is the last effect of
  the run and the only teardown call, on distributed and non-distributed runs alike,
  while the process group is initialised only on distributed runs. On a
  non-distributed run the call, made with no process group, raises.
\<close>

theorem teardown_once:
  assumes "startup cfg ext wld = Inr s0" and "train_loop cfg ext wld s0 = Return u s1"
  shows "run_trace (run_script cfg ext wld) = trace s1 @ [DestroyProcessGroup]
         \<and> filter (\<lambda>e. e = DestroyProcessGroup) (run_trace (run_script cfg ext wld))
             = [DestroyProcessGroup]
         \<and> filter is_init_group (run_trace (run_script cfg ext wld))
             = (if is_ddp wld then [InitProcessGroup (backend cfg)] else [])
         \<and> run_script cfg ext wld
             = (if is_ddp wld then Inr (emit DestroyProcessGroup s1)
                else Inl (AssertionError, trace s1 @ [DestroyProcessGroup]))"
proof -
  have d0: "filter (\<lambda>e. e = DestroyProcessGroup) (trace s0) = []"
    using startup_events [of cfg ext wld] assms(1)
    by (intro filter_empty_class [of startup_event])
      (auto simp: run_trace_def elim: startup_event.elims)
  have d1: "filter (\<lambda>e. e = DestroyProcessGroup) (trace s1)
              = filter (\<lambda>e. e = DestroyProcessGroup) (trace s0)"
    by (rule train_loop_trace [of cfg ext wld s0]) (auto simp: assms(2) elim: loop_event.elims)
  have i0: "filter is_init_group (trace s0)
              = (if is_ddp wld then [InitProcessGroup (backend cfg)] else [])"
    using startup_init_group [of cfg ext wld] assms(1) by (simp add: run_trace_def)
  have i1: "filter is_init_group (trace s1) = filter is_init_group (trace s0)"
    by (rule train_loop_trace [of cfg ext wld s0]) (auto simp: assms(2) elim: loop_event.elims)
  from assms train_loop_return_ddp [OF assms]
  have run: "run_script cfg ext wld
             = (if is_ddp wld then Inr (emit DestroyProcessGroup s1)
                else Inl (AssertionError, trace s1 @ [DestroyProcessGroup]))"
    by (simp add: run_script_def destroy_process_group_def emit_def)
  then have tr: "run_trace (run_script cfg ext wld) = trace s1 @ [DestroyProcessGroup]"
    by (simp add: run_trace_def emit_def)
  from d0 d1 i0 i1 run tr show ?thesis by simp
qed

theorem teardown_once_witness:
  "\<not> is_ddp demo_world
   \<and> run_script demo_config demo_ext demo_world
       = Inl (AssertionError, trace demo_finished @ [DestroyProcessGroup])
   \<and> filter (\<lambda>e. e = DestroyProcessGroup) (run_trace (run_script demo_config demo_ext demo_world))
       = [DestroyProcessGroup]
   \<and> filter is_init_group (run_trace (run_script demo_config demo_ext demo_world)) = []
   \<and> run_script demo_eval_only demo_ext demo_world
       = Inl (AssertionError, trace demo_after_eval @ [DestroyProcessGroup])
   \<and> filter (\<lambda>e. e = DestroyProcessGroup)
         (run_trace (run_script demo_eval_only demo_ext demo_world)) = [DestroyProcessGroup]
   \<and> filter is_init_group (run_trace (run_script demo_eval_only demo_ext demo_world)) = []
   \<and> is_ddp demo_world_rank1
   \<and> run_script demo_config demo_ext demo_world_rank1
       = Inr (emit DestroyProcessGroup demo_rank1_finished)
   \<and> filter (\<lambda>e. e = DestroyProcessGroup)
         (run_trace (run_script demo_config demo_ext demo_world_rank1)) = [DestroyProcessGroup]
   \<and> filter is_init_group (run_trace (run_script demo_config demo_ext demo_world_rank1))
       = [InitProcessGroup ''nccl'']"
proof -
  have b: "backend demo_config = ''nccl''"
    by (simp add: demo_config_def default_config_def)
  from teardown_once [OF demo_startup demo_train_loop, unfolded if_not_P [OF demo_rank0(2)]]
  have full: "run_script demo_config demo_ext demo_world
       = Inl (AssertionError, trace demo_finished @ [DestroyProcessGroup])
     \<and> filter (\<lambda>e. e = DestroyProcessGroup) (run_trace (run_script demo_config demo_ext demo_world))
         = [DestroyProcessGroup]
     \<and> filter is_init_group (run_trace (run_script demo_config demo_ext demo_world)) = []"
    by blast
  from teardown_once [OF demo_startups(1) demo_eval_only_train_loop,
      unfolded if_not_P [OF demo_rank0(2)]]
  have early: "run_script demo_eval_only demo_ext demo_world
       = Inl (AssertionError, trace demo_after_eval @ [DestroyProcessGroup])
     \<and> filter (\<lambda>e. e = DestroyProcessGroup)
         (run_trace (run_script demo_eval_only demo_ext demo_world)) = [DestroyProcessGroup]
     \<and> filter is_init_group (run_trace (run_script demo_eval_only demo_ext demo_world)) = []"
    by blast
  from teardown_once [OF demo_rank1_startup demo_rank1_full_loop,
      unfolded if_P [OF demo_rank1(2)] b]
  have dist: "run_script demo_config demo_ext demo_world_rank1
       = Inr (emit DestroyProcessGroup demo_rank1_finished)
     \<and> filter (\<lambda>e. e = DestroyProcessGroup)
         (run_trace (run_script demo_config demo_ext demo_world_rank1)) = [DestroyProcessGroup]
     \<and> filter is_init_group (run_trace (run_script demo_config demo_ext demo_world_rank1))
         = [InitProcessGroup ''nccl'']"
    by blast
  from full early dist demo_rank0(2) demo_rank1(2) show ?thesis by blast
qed

section \<open>Resuming from a checkpoint\<close>

lemma check_model_args_None:
  "check_model_args ck args = None \<longleftrightarrow> (\<forall>(k, v) \<in> set args. map_of ck k = Some v)"
  by (induction args) (auto split: option.splits if_splits)

lemma check_model_args_Some:
  "check_model_args ck args = Some e \<Longrightarrow> e = KeyError \<or> e = AssertionError"
  by (induction args) (auto split: option.splits if_splits)

text \<open>Lines 151--152 applied to the weights of the checkpoint.\<close>

definition resumed_model :: "config \<Rightarrow> ('w, 'o) collaborators \<Rightarrow> 'w \<Rightarrow> 'w" where
  "resumed_model cfg ext m =
     (if block_size cfg < model_block_size ext m then crop_block_size ext m (block_size cfg)
      else m)"

text \<open>
  Claim C6. With \<open>init_from = 'resume'\<close>, a checkpoint on disk whose hyperparameters
  pass the check, and a model constructor that returns, start-up succeeds and the loop
  begins in a state whose \<open>iter_num\<close> and \<open>best_val_loss\<close> are those of the
  checkpoint (not 0 and \<open>1e9\<close>), whose optimizer state is the checkpoint's and whose
  weights are the checkpoint's.
\<close>

theorem resume_restores:
  assumes "init_from cfg = ''resume''" and "ckpt_on_disk wld = Some ck"
    and "check_model_args (ck_model_args ck) (model_args cfg) = None"
    and "GPT ext (model_args cfg) = Inr m"
  shows "\<exists>s0. startup cfg ext wld = Inr s0
           \<and> iter_num s0 = ck_iter_num ck
           \<and> best_val_loss s0 = ck_best_val_loss ck
           \<and> optimizer s0 = ck_optimizer ck
           \<and> model s0 = resumed_model cfg ext (ck_model ck)
           \<and> run_script cfg ext wld
               = (case train_loop cfg ext wld s0 of
                    Raise e s \<Rightarrow> Inl (e, trace s)
                  | Return u s \<Rightarrow> destroy_process_group s)"
  using assms
  by (simp add: startup_def init_model_def run_script_def resumed_model_def Let_def)

text \<open>A resumed run: a checkpoint taken at iteration 7 with best loss \<open>1/3\<close>.\<close>

definition demo_resume :: config where
  "demo_resume = demo_config\<lparr>init_from := ''resume''\<rparr>"

definition demo_checkpoint :: "(nat, nat) checkpoint" where
  "demo_checkpoint =
     \<lparr> ck_model = 5, ck_optimizer = 6,
       ck_model_args = [(''n_layer'', 12), (''n_head'', 12), (''n_embd'', 768),
                        (''block_size'', 2), (''dropout'', 1 / 10)],
       ck_iter_num = 7, ck_best_val_loss = Flt (1 / 3) \<rparr>"

definition demo_world_resume :: "(nat, nat) world" where
  "demo_world_resume = demo_world\<lparr>ckpt_on_disk := Some demo_checkpoint\<rparr>"

definition demo_state_resumed :: "(nat, nat) state" where
  "demo_state_resumed =
     \<lparr> gpu_id = 0, ddp = False, iter_num = 7, best_val_loss = Flt (1 / 3), model = 5,
       optimizer = 6, training = True, rng_pos = 0, ckpt_file = Some demo_checkpoint,
       trace = [MakeDirs ''out'', ManualSeed 1337, Print (MsgResume ''out''),
                TorchLoad ''out/ckpt.pt''] \<rparr>"

lemma demo_resume_startup:
  "startup demo_resume demo_ext demo_world_resume = Inr demo_state_resumed"
  by (simp add: startup_def init_model_def topology_events_def rank_of_def is_ddp_def
      demo_resume_def demo_config_def default_config_def demo_ext_def
      demo_world_def demo_world_resume_def demo_state_resumed_def demo_checkpoint_def
      model_args_def ckpt_path_def path_join_def Let_def)

theorem resume_restores_witness:
  "startup demo_resume demo_ext demo_world_resume = Inr demo_state_resumed
   \<and> ck_iter_num demo_checkpoint = 7 \<and> iter_num demo_state_resumed = 7
   \<and> ck_best_val_loss demo_checkpoint = Flt (1 / 3)
   \<and> best_val_loss demo_state_resumed = Flt (1 / 3)
   \<and> optimizer demo_state_resumed = ck_optimizer demo_checkpoint"
proof -
  have a: "init_from demo_resume = ''resume''"
    by (simp add: demo_resume_def)
  have b: "ckpt_on_disk demo_world_resume = Some demo_checkpoint"
    by (simp add: demo_world_resume_def)
  have c: "check_model_args (ck_model_args demo_checkpoint) (model_args demo_resume) = None"
    by (simp add: demo_checkpoint_def model_args_def demo_resume_def demo_config_def
        default_config_def)
  have d: "GPT demo_ext (model_args demo_resume) = Inr 0"
    by (simp add: demo_ext_def)
  from resume_restores [OF a b c d] obtain s0 where
    "startup demo_resume demo_ext demo_world_resume = Inr s0"
    and "iter_num s0 = ck_iter_num demo_checkpoint"
    and "best_val_loss s0 = ck_best_val_loss demo_checkpoint"
    and "optimizer s0 = ck_optimizer demo_checkpoint"
    by blast
  moreover have "ck_iter_num demo_checkpoint = 7"
    "ck_best_val_loss demo_checkpoint = Flt (1 / 3)"
    by (simp_all add: demo_checkpoint_def)
  ultimately show ?thesis using demo_resume_startup by auto
qed

section \<open>The hyperparameter check on resume\<close>

text \<open>
  Claim C8, as amended. On resume, every hyperparameter requested for the run (every
  item of \<open>model_args\<close>) is looked up in the checkpoint's dict and compared: start-up
  succeeds only if each is stored there with an equal value, and a missing key or a
  different value ends the process at once (KeyError or AssertionError), after the
  checkpoint is loaded and before the model is built or the loop is entered.
\<close>

theorem resume_validates:
  assumes "init_from cfg = ''resume''" and "ckpt_on_disk wld = Some ck"
  shows "((\<exists>s0. startup cfg ext wld = Inr s0) \<longrightarrow>
            (\<forall>(k, v) \<in> set (model_args cfg). map_of (ck_model_args ck) k = Some v))
         \<and> ((\<exists>(k, v) \<in> set (model_args cfg). map_of (ck_model_args ck) k \<noteq> Some v) \<longrightarrow>
              (\<exists>e. (e = KeyError \<or> e = AssertionError)
                 \<and> startup cfg ext wld
                     = Inl (e, topology_events cfg wld
                               @ [Print (MsgResume (out_dir cfg)), TorchLoad (ckpt_path cfg)])
                 \<and> run_script cfg ext wld
                     = Inl (e, topology_events cfg wld
                               @ [Print (MsgResume (out_dir cfg)), TorchLoad (ckpt_path cfg)])))"
proof (intro conjI impI)
  assume "\<exists>s0. startup cfg ext wld = Inr s0"
  then have "check_model_args (ck_model_args ck) (model_args cfg) = None"
    using assms
    by (auto simp: startup_def init_model_def Let_def split: option.splits sum.splits)
  then show "\<forall>(k, v) \<in> set (model_args cfg). map_of (ck_model_args ck) k = Some v"
    by (simp add: check_model_args_None)
next
  assume "\<exists>(k, v) \<in> set (model_args cfg). map_of (ck_model_args ck) k \<noteq> Some v"
  then have "check_model_args (ck_model_args ck) (model_args cfg) \<noteq> None"
    by (auto simp: check_model_args_None)
  then obtain e where e: "check_model_args (ck_model_args ck) (model_args cfg) = Some e"
    by auto
  from check_model_args_Some [OF e] have "e = KeyError \<or> e = AssertionError" .
  moreover from e assms
  have "startup cfg ext wld
          = Inl (e, topology_events cfg wld
                    @ [Print (MsgResume (out_dir cfg)), TorchLoad (ckpt_path cfg)])"
    by (simp add: startup_def init_model_def Let_def)
  ultimately show "\<exists>e. (e = KeyError \<or> e = AssertionError)
       \<and> startup cfg ext wld
           = Inl (e, topology_events cfg wld
                     @ [Print (MsgResume (out_dir cfg)), TorchLoad (ckpt_path cfg)])
       \<and> run_script cfg ext wld
           = Inl (e, topology_events cfg wld
                     @ [Print (MsgResume (out_dir cfg)), TorchLoad (ckpt_path cfg)])"
    by (auto simp: run_script_def)
qed

text \<open>
  Two more checkpoints: one taken with another \<open>n_layer\<close>, one that stores a
  hyperparameter the run does not have.
\<close>

definition demo_checkpoint_mismatch :: "(nat, nat) checkpoint" where
  "demo_checkpoint_mismatch =
     demo_checkpoint\<lparr>ck_model_args :=
       [(''n_layer'', 6), (''n_head'', 12), (''n_embd'', 768), (''block_size'', 2),
        (''dropout'', 1 / 10)]\<rparr>"

definition demo_checkpoint_extra :: "(nat, nat) checkpoint" where
  "demo_checkpoint_extra =
     demo_checkpoint\<lparr>ck_model_args :=
       [(''n_layer'', 12), (''n_head'', 12), (''n_embd'', 768), (''block_size'', 2),
        (''dropout'', 1 / 10), (''vocab_size'', 50257)]\<rparr>"

definition demo_world_mismatch :: "(nat, nat) world" where
  "demo_world_mismatch = demo_world\<lparr>ckpt_on_disk := Some demo_checkpoint_mismatch\<rparr>"

definition demo_world_extra :: "(nat, nat) world" where
  "demo_world_extra = demo_world\<lparr>ckpt_on_disk := Some demo_checkpoint_extra\<rparr>"

lemma demo_mismatch_startup:
  "startup demo_resume demo_ext demo_world_mismatch
     = Inl (AssertionError,
            [MakeDirs ''out'', ManualSeed 1337, Print (MsgResume ''out''),
             TorchLoad ''out/ckpt.pt''])"
  by (simp add: startup_def init_model_def topology_events_def rank_of_def is_ddp_def
      demo_resume_def demo_config_def default_config_def demo_ext_def
      demo_world_def demo_world_mismatch_def demo_checkpoint_mismatch_def demo_checkpoint_def
      model_args_def ckpt_path_def path_join_def Let_def)

theorem resume_validates_witness:
  "startup demo_resume demo_ext demo_world_resume = Inr demo_state_resumed
   \<and> map_of (ck_model_args demo_checkpoint) ''n_layer'' = Some (real_of_int (n_layer demo_resume))
   \<and> map_of (ck_model_args demo_checkpoint_mismatch) ''n_layer'' = Some 6
   \<and> n_layer demo_resume = 12
   \<and> run_script demo_resume demo_ext demo_world_mismatch
       = Inl (AssertionError,
              [MakeDirs ''out'', ManualSeed 1337, Print (MsgResume ''out''),
               TorchLoad ''out/ckpt.pt''])"
proof -
  have a: "init_from demo_resume = ''resume''"
    by (simp add: demo_resume_def)
  have b: "ckpt_on_disk demo_world_resume = Some demo_checkpoint"
    "ckpt_on_disk demo_world_mismatch = Some demo_checkpoint_mismatch"
    by (simp_all add: demo_world_resume_def demo_world_mismatch_def)
  have n: "(''n_layer'', real_of_int (n_layer demo_resume)) \<in> set (model_args demo_resume)"
    by (simp add: model_args_def)
  have l: "n_layer demo_resume = 12"
    by (simp add: demo_resume_def demo_config_def default_config_def)
  have "\<exists>s0. startup demo_resume demo_ext demo_world_resume = Inr s0"
    using demo_resume_startup by blast
  with resume_validates [OF a b(1), of demo_ext] n
  have ok: "map_of (ck_model_args demo_checkpoint) ''n_layer''
              = Some (real_of_int (n_layer demo_resume))"
    by blast
  have six: "map_of (ck_model_args demo_checkpoint_mismatch) ''n_layer'' = Some 6"
    by (simp add: demo_checkpoint_mismatch_def)
  with n l have "\<exists>(k, v) \<in> set (model_args demo_resume).
      map_of (ck_model_args demo_checkpoint_mismatch) k \<noteq> Some v"
    by (intro bexI [of _ "(''n_layer'', real_of_int (n_layer demo_resume))"]) simp_all
  with resume_validates [OF a b(2), of demo_ext] obtain e tr where
    "startup demo_resume demo_ext demo_world_mismatch = Inl (e, tr)"
    "run_script demo_resume demo_ext demo_world_mismatch = Inl (e, tr)"
    by blast
  with demo_mismatch_startup
  have "run_script demo_resume demo_ext demo_world_mismatch
       = Inl (AssertionError,
              [MakeDirs ''out'', ManualSeed 1337, Print (MsgResume ''out''),
               TorchLoad ''out/ckpt.pt''])"
    by simp
  with demo_resume_startup ok six l show ?thesis by blast
qed

text \<open>
  Claim C8 as stated speaks of every hyperparameter stored in the checkpoint. The loop
  of line 139 runs over the run's \<open>model_args\<close>, so a hyperparameter that only the
  checkpoint stores (here \<open>vocab_size\<close>) is never looked at and the resume goes
  through.
\<close>

theorem resume_extra_key_counterexample:
  "init_from demo_resume = ''resume''
   \<and> ckpt_on_disk demo_world_extra = Some demo_checkpoint_extra
   \<and> map_of (ck_model_args demo_checkpoint_extra) ''vocab_size'' = Some 50257
   \<and> map_of (model_args demo_resume) ''vocab_size'' = None
   \<and> startup demo_resume demo_ext demo_world_extra
       = Inr (demo_state_resumed\<lparr>ckpt_file := Some demo_checkpoint_extra\<rparr>)"
  by (simp add: startup_def init_model_def topology_events_def rank_of_def is_ddp_def
      demo_resume_def demo_config_def default_config_def demo_ext_def
      demo_world_def demo_world_extra_def demo_checkpoint_extra_def demo_checkpoint_def
      demo_state_resumed_def model_args_def ckpt_path_def path_join_def Let_def)

end
